theory Spec2Isabelle
  imports Complex_Main
begin

section \<open>Observatory booking: weather rating, slot scheduling and the booking ledger\<close>

text \<open>
  The development follows the service layer of the application:
  \<^verbatim>\<open>app/services/weather_service.py\<close>, \<^verbatim>\<open>app/services/booking_service.py\<close>,
  \<^verbatim>\<open>app/services/admin_service.py\<close>, the tables of \<^verbatim>\<open>app/models.py\<close> and the rate
  limiter of \<^verbatim>\<open>app/utils.py\<close>.

  Conventions. A clock reading is an \<open>int\<close>: the number of seconds a clock shows since
  1970-01-01 00:00:00 on that clock. Python floats are read as real numbers. A table is
  the list of its rows in the order a query returns them, so \<^verbatim>\<open>.first()\<close> is
  \<open>find\<close>, \<^verbatim>\<open>.count()\<close> is the length of a \<open>filter\<close>.
\<close>

subsection \<open>Weather rating (\<^verbatim>\<open>WeatherService\<close>)\<close>

text \<open>One hour of forecast: the dictionary built by \<^verbatim>\<open>_process_hourly_data\<close>.\<close>

type_synonym metrics = "string \<rightharpoonup> real"

text \<open>\<^verbatim>\<open>dict.get(key, default)\<close>.\<close>

definition get_or :: "metrics \<Rightarrow> string \<Rightarrow> real \<Rightarrow> real" where
  "get_or weather k d = (case weather k of None \<Rightarrow> d | Some v \<Rightarrow> v)"

definition DEW_POINT_THRESHOLD_LOW :: real where
  "DEW_POINT_THRESHOLD_LOW = 5"

definition DEW_POINT_THRESHOLD_HIGH :: real where
  "DEW_POINT_THRESHOLD_HIGH = 10"

definition IDEAL_VISIBILITY :: real where
  "IDEAL_VISIBILITY = 20000"

text \<open>The class attribute \<^verbatim>\<open>WEIGHTS\<close>, one constant per key.\<close>

definition WEIGHT_cloud_cover :: real where
  "WEIGHT_cloud_cover = 4 / 10"

definition WEIGHT_precipitation_probability :: real where
  "WEIGHT_precipitation_probability = 3 / 10"

definition WEIGHT_dew_point :: real where
  "WEIGHT_dew_point = 15 / 100"

definition WEIGHT_visibility :: real where
  "WEIGHT_visibility = 15 / 100"

definition dew_rating :: "real \<Rightarrow> real" where
  "dew_rating dew_point =
     (if dew_point < DEW_POINT_THRESHOLD_LOW then 100
      else if dew_point \<le> DEW_POINT_THRESHOLD_HIGH then
        (let range_size = DEW_POINT_THRESHOLD_HIGH - DEW_POINT_THRESHOLD_LOW;
             relative_pos = dew_point - DEW_POINT_THRESHOLD_LOW
         in 100 - relative_pos * (100 / range_size))
      else 0)"

definition calculate_hourly_rating :: "metrics \<Rightarrow> real" where
  "calculate_hourly_rating weather =
     (let cloud_rating = max 0 (100 - get_or weather ''cloud_cover'' 100);
          precip_rating = max 0 (100 - get_or weather ''precipitation_probability'' 100);
          dew_point = get_or weather ''dew_point'' DEW_POINT_THRESHOLD_HIGH;
          dew = dew_rating dew_point;
          visibility = get_or weather ''visibility'' 0;
          visibility_rating = min 100 (visibility / IDEAL_VISIBILITY * 100)
      in WEIGHT_cloud_cover * cloud_rating
         + WEIGHT_precipitation_probability * precip_rating
         + WEIGHT_dew_point * dew
         + WEIGHT_visibility * visibility_rating)"

definition calculate_average_weather_rating :: "metrics list \<Rightarrow> real" where
  "calculate_average_weather_rating hourly_weather =
     (if hourly_weather = [] then 0
      else (let ratings = map calculate_hourly_rating hourly_weather
            in sum_list ratings / real (length ratings)))"

text \<open>An observation with all four keys present.\<close>

definition observation :: "real \<Rightarrow> real \<Rightarrow> real \<Rightarrow> real \<Rightarrow> metrics" where
  "observation c p d v =
     [''cloud_cover'' \<mapsto> c, ''precipitation_probability'' \<mapsto> p,
      ''dew_point'' \<mapsto> d, ''visibility'' \<mapsto> v]"

subsection \<open>Clocks and time zones\<close>

text \<open>
  A \<^verbatim>\<open>zoneinfo.ZoneInfo\<close> object: its key, the offset from UTC (in seconds) that is in
  effect when the local clock shows a given reading (\<^verbatim>\<open>tz.utcoffset(dt)\<close>), and the
  local reading at a given UTC reading (\<^verbatim>\<open>tz.fromutc(dt)\<close>). The rules of a zone
  come from the time zone database of the host, so the lookup \<^verbatim>\<open>ZoneInfo(key)\<close> is a
  parameter \<open>zones\<close> of every operation that performs it.
\<close>

record ZoneInfo =
  zone_key :: string
  utcoffset :: "int \<Rightarrow> int"
  fromutc :: "int \<Rightarrow> int"

text \<open>\<^verbatim>\<open>datetime.timezone.utc\<close>.\<close>

definition utc :: ZoneInfo where
  "utc = \<lparr>zone_key = ''UTC'', utcoffset = (\<lambda>w. 0), fromutc = (\<lambda>t. t)\<rparr>"

text \<open>
  A \<^verbatim>\<open>datetime\<close> is naive (a bare clock reading) or aware (a reading together with the
  zone whose clock shows it).
\<close>

datatype datetime = Naive int | Aware int ZoneInfo

text \<open>
  \<^verbatim>\<open>dt.astimezone(tz)\<close> for an aware \<open>dt\<close> with reading \<open>w\<close> in zone \<open>z\<close>: the same
  object when \<open>tz\<close> is the zone of \<open>dt\<close> (zones are cached by key), otherwise the
  reading of the clock of \<open>tz\<close> at the same instant.
\<close>

definition astimezone :: "int \<Rightarrow> ZoneInfo \<Rightarrow> ZoneInfo \<Rightarrow> int" where
  "astimezone w z tz =
     (if zone_key z = zone_key tz then w else fromutc tz (w - utcoffset z w))"

text \<open>\<^verbatim>\<open>dt.replace(hour=0, minute=0, second=0, microsecond=0)\<close> and the same for the hour.\<close>

definition replace_midnight :: "int \<Rightarrow> int" where
  "replace_midnight w = w - w mod 86400"

definition replace_hour_start :: "int \<Rightarrow> int" where
  "replace_hour_start w = w - w mod 3600"

subsection \<open>Tables (\<^verbatim>\<open>app/models.py\<close>)\<close>

text \<open>
  Only the columns the service layer reads or writes are kept. The primary keys
  \<^verbatim>\<open>User.id\<close>, \<^verbatim>\<open>Slot.id\<close> and \<^verbatim>\<open>Booking.id\<close> are \<open>u_id\<close>, \<open>s_id\<close> and \<open>b_id\<close>.
  \<open>start_time\<close> and \<open>end_time\<close> are naive readings of the UTC clock.
\<close>

record user =
  u_id :: nat
  blocked :: bool

record slot =
  s_id :: nat
  title :: string
  description :: string
  start_time :: int
  end_time :: int
  available :: bool
  weather_rating :: "real option"
  max_bookings :: int
  weather_warning :: bool
  weather_forecast :: bool

record booking =
  b_id :: nat
  user_id :: nat
  slot_id :: nat
  status :: string

record configuration =
  latitude :: real
  longitude :: real
  timezone :: string
  weather_threshold :: int
  max_bookings_per_event :: int
  default_opening_time :: int
  default_closing_time :: int

text \<open>
  The store and, beside it, the module-level dictionary \<^verbatim>\<open>_rate_limit_store\<close> of
  \<^verbatim>\<open>app/utils.py\<close> (a \<^verbatim>\<open>defaultdict(list)\<close>: every user has a list, empty at first).
\<close>

record state =
  users :: "user list"
  slots :: "slot list"
  bookings :: "booking list"
  config_row :: "configuration option"
  rate_limit_store :: "nat \<Rightarrow> int list"

text \<open>The column defaults of \<^verbatim>\<open>Configuration\<close>.\<close>

definition default_configuration :: configuration where
  "default_configuration =
     \<lparr>latitude = 41.8933203, longitude = 12.4829321, timezone = ''Europe/Rome'',
      weather_threshold = 70, max_bookings_per_event = 10,
      default_opening_time = 17 * 3600, default_closing_time = 22 * 3600\<rparr>"

text \<open>\<^verbatim>\<open>Configuration.get_config\<close>: the first row, created with the defaults and committed when the table is empty.\<close>

definition get_config :: "state \<Rightarrow> configuration \<times> state" where
  "get_config s =
     (case config_row s of
        Some config \<Rightarrow> (config, s)
      | None \<Rightarrow> (default_configuration, s\<lparr>config_row := Some default_configuration\<rparr>))"

text \<open>The key the store gives a new row: one more than the largest key in the table.\<close>

definition next_id :: "nat list \<Rightarrow> nat" where
  "next_id ids = Suc (fold max ids 0)"

subsection \<open>Rate limiter (\<^verbatim>\<open>app/utils.py\<close>)\<close>

definition RATE_LIMIT_SECONDS :: int where
  "RATE_LIMIT_SECONDS = 20"

definition MAX_REQUESTS :: nat where
  "MAX_REQUESTS = 10"

text \<open>
  \<^verbatim>\<open>is_rate_limited(user_id)\<close> at clock reading \<open>current_time\<close>: the answer and the
  dictionary it leaves behind.
\<close>

definition is_rate_limited ::
  "int \<Rightarrow> nat \<Rightarrow> (nat \<Rightarrow> int list) \<Rightarrow> bool \<times> (nat \<Rightarrow> int list)" where
  "is_rate_limited current_time uid store =
     (let recent = filter (\<lambda>t. current_time - t < RATE_LIMIT_SECONDS) (store uid)
      in if length recent \<ge> MAX_REQUESTS then (True, store(uid := recent))
         else (False, store(uid := recent @ [current_time])))"

subsection \<open>Booking service (\<^verbatim>\<open>app/services/booking_service.py\<close>)\<close>

text \<open>\<^verbatim>\<open>_validate_user_and_slot\<close>: the error message, or the user and the slot.\<close>

definition validate_user_and_slot :: "state \<Rightarrow> nat \<Rightarrow> nat \<Rightarrow> string + user \<times> slot" where
  "validate_user_and_slot db uid sid =
     (case find (\<lambda>u. u_id u = uid) (users db) of
        None \<Rightarrow> Inl ''User not found.''
      | Some u \<Rightarrow>
          if blocked u then Inl ''Your account is blocked.''
          else (case find (\<lambda>r. s_id r = sid) (slots db) of
                  None \<Rightarrow> Inl ''Event not found.''
                | Some r \<Rightarrow> Inr (u, r)))"

definition is_confirmed_for :: "nat \<Rightarrow> nat \<Rightarrow> booking \<Rightarrow> bool" where
  "is_confirmed_for uid sid b \<longleftrightarrow> user_id b = uid \<and> slot_id b = sid \<and> status b = ''confirmed''"

text \<open>The count query: confirmed bookings of a slot.\<close>

definition confirmed_count :: "state \<Rightarrow> nat \<Rightarrow> int" where
  "confirmed_count db sid =
     int (length (filter (\<lambda>b. slot_id b = sid \<and> status b = ''confirmed'') (bookings db)))"

text \<open>Assignment to \<^verbatim>\<open>slot.available\<close> of the row with key \<open>sid\<close>.\<close>

definition set_available :: "nat \<Rightarrow> bool \<Rightarrow> slot list \<Rightarrow> slot list" where
  "set_available sid v rows = map (\<lambda>r. if s_id r = sid then r\<lparr>available := v\<rparr> else r) rows"

text \<open>The row \<^verbatim>\<open>Booking(user_id=user_id, slot_id=slot_id, status="confirmed")\<close> with the key the store gives it.\<close>

definition new_booking_of :: "state \<Rightarrow> nat \<Rightarrow> nat \<Rightarrow> booking" where
  "new_booking_of db uid sid =
     \<lparr>b_id = next_id (map b_id (bookings db)), user_id = uid, slot_id = sid,
      status = ''confirmed''\<rparr>"

text \<open>
  \<^verbatim>\<open>book_slot\<close> at clock reading \<open>clock\<close> (UTC): the message and the state left behind.
  \<open>current_time\<close> and \<open>slot_start\<close> both carry the zone object \<open>tz\<close>, and Python
  compares two aware datetimes of one zone by their readings; so the comparison is between
  the local reading of the clock and the stored \<open>start_time\<close>, which
  \<^verbatim>\<open>replace(tzinfo=tz)\<close> labels without changing it. The insert violates the constraint
  \<^verbatim>\<open>uq_user_slot_booking\<close> when a row of any status exists for the pair; the commit then
  raises, the handler rolls back and returns the server-error message.
\<close>

definition book_slot ::
  "(string \<Rightarrow> ZoneInfo) \<Rightarrow> int \<Rightarrow> state \<Rightarrow> nat \<Rightarrow> nat \<Rightarrow> string \<times> state" where
  "book_slot zones clock s uid sid =
     (case validate_user_and_slot s uid sid of
        Inl error \<Rightarrow> (error, s)
      | Inr (u, r) \<Rightarrow>
          (let (limited, store) = is_rate_limited clock uid (rate_limit_store s);
               db = s\<lparr>rate_limit_store := store\<rparr>
           in if limited then (''You are rate-limited. Please try again later.'', db)
              else
                (let (config, db) = get_config db;
                     tz = zones (timezone config);
                     current_time = fromutc tz clock;
                     slot_start = start_time r
                 in if current_time \<ge> slot_start
                    then (''Event is no longer available for booking.'', db)
                    else
                      (case find (is_confirmed_for uid sid) (bookings db) of
                         Some existing_booking \<Rightarrow> (''You have already booked this event.'', db)
                       | None \<Rightarrow>
                           (let current_bookings = confirmed_count db sid
                            in if current_bookings \<ge> max_bookings r
                               then (''Event is fully booked.'', db)
                               else if list_ex (\<lambda>b. user_id b = uid \<and> slot_id b = sid) (bookings db)
                               then (''Booking failed due to a server error.'', db)
                               else
                                 (let new_booking = new_booking_of db uid sid;
                                      db = db\<lparr>bookings := bookings db @ [new_booking]\<rparr>;
                                      db = (if current_bookings + 1 \<ge> max_bookings r
                                            then db\<lparr>slots := set_available sid False (slots db)\<rparr>
                                            else db)
                                  in (''Booking confirmed.'', db)))))))"

text \<open>\<^verbatim>\<open>cancel_booking\<close>; \<^verbatim>\<open>db.delete(booking)\<close> removes the row with the key of the booking found.\<close>

definition cancel_booking ::
  "(string \<Rightarrow> ZoneInfo) \<Rightarrow> int \<Rightarrow> state \<Rightarrow> nat \<Rightarrow> nat \<Rightarrow> string \<times> state" where
  "cancel_booking zones clock s uid sid =
     (case validate_user_and_slot s uid sid of
        Inl error \<Rightarrow> (error, s)
      | Inr (u, r) \<Rightarrow>
          (let (limited, store) = is_rate_limited clock uid (rate_limit_store s);
               db = s\<lparr>rate_limit_store := store\<rparr>
           in if limited then (''You are rate-limited. Please try again later.'', db)
              else
                (case find (is_confirmed_for uid sid) (bookings db) of
                   None \<Rightarrow> (''No active booking found for this event.'', db)
                 | Some b \<Rightarrow>
                     (let (config, db) = get_config db;
                          tz = zones (timezone config);
                          current_time = fromutc tz clock;
                          slot_start = start_time r
                      in if current_time \<ge> slot_start
                         then (''Cannot cancel booking after event has started.'', db)
                         else
                           (let db = db\<lparr>bookings := filter (\<lambda>x. b_id x \<noteq> b_id b) (bookings db)\<rparr>;
                                confirmed = confirmed_count db sid;
                                db = (if confirmed < max_bookings r
                                      then db\<lparr>slots := set_available sid True (slots db)\<rparr>
                                      else db)
                            in (''Booking cancelled successfully.'', db))))))"

subsection \<open>Event scheduling (\<^verbatim>\<open>app/services/admin_service.py\<close>)\<close>

text \<open>
  \<^verbatim>\<open>EventTimes\<close>: the local readings (aware, in the configured zone) and the UTC
  readings of the start and the end.
\<close>

record EventTimes =
  start_local :: int
  end_local :: int
  start_utc :: int
  end_utc :: int

text \<open>
  \<^verbatim>\<open>_calculate_event_times\<close>: \<open>event_date\<close> is the reading at 00:00 of the chosen day,
  the opening and closing times are seconds after midnight.
\<close>

definition calculate_event_times :: "int \<Rightarrow> int \<Rightarrow> int \<Rightarrow> int \<times> int" where
  "calculate_event_times event_date opening_time closing_time =
     (let event_start_local = event_date + opening_time;
          event_end_local = (if closing_time \<le> opening_time
                             then event_date + 86400 + closing_time
                             else event_date + closing_time)
      in (event_start_local, event_end_local))"

definition calculate_event_times_full :: "int \<Rightarrow> int \<Rightarrow> int \<Rightarrow> ZoneInfo \<Rightarrow> EventTimes" where
  "calculate_event_times_full event_date opening_time closing_time tz =
     (let (event_start_local, event_end_local) =
            calculate_event_times event_date opening_time closing_time;
          event_start_utc = astimezone event_start_local tz utc;
          event_end_utc = astimezone event_end_local tz utc
      in \<lparr>start_local = event_start_local, end_local = event_end_local,
          start_utc = event_start_utc, end_utc = event_end_utc\<rparr>)"

text \<open>\<^verbatim>\<open>WeatherInfo\<close> and the dictionary \<^verbatim>\<open>event_data\<close> handed to \<^verbatim>\<open>_save_event\<close>.\<close>

record WeatherInfo =
  condition_rating :: "real option"
  wi_weather_warning :: bool
  wi_weather_forecast :: bool

record event_data =
  ed_title :: string
  ed_description :: string
  ed_max_bookings :: int
  ed_start_time :: int
  ed_end_time :: int
  ed_weather_info :: WeatherInfo

text \<open>The filter \<^verbatim>\<open>Slot.id != existing_event.id\<close>, added only when a slot is being edited.\<close>

definition not_existing :: "slot option \<Rightarrow> slot \<Rightarrow> bool" where
  "not_existing existing_event r =
     (case existing_event of None \<Rightarrow> True | Some e \<Rightarrow> s_id r \<noteq> s_id e)"

definition check_same_day_start :: "state \<Rightarrow> slot option \<Rightarrow> int \<Rightarrow> bool" where
  "check_same_day_start session existing_event start =
     (let start_day_utc = replace_midnight start;
          next_day_utc = start_day_utc + 86400
      in find (\<lambda>r. start_time r \<ge> start_day_utc \<and> start_time r < next_day_utc
                    \<and> not_existing existing_event r) (slots session) \<noteq> None)"

definition check_prev_day_overlap :: "state \<Rightarrow> slot option \<Rightarrow> int \<Rightarrow> bool" where
  "check_prev_day_overlap session existing_event start =
     (let start_day_utc = replace_midnight start;
          prev_day_start_utc = start_day_utc - 86400;
          prev_day_end_utc = start_day_utc
      in find (\<lambda>r. start_time r \<ge> prev_day_start_utc \<and> start_time r < prev_day_end_utc
                    \<and> end_time r > start \<and> not_existing existing_event r) (slots session) \<noteq> None)"

definition check_next_day_overlap :: "state \<Rightarrow> slot option \<Rightarrow> int \<Rightarrow> bool" where
  "check_next_day_overlap session existing_event end =
     (let end_day_utc = replace_midnight end;
          next_day_utc = end_day_utc + 86400
      in find (\<lambda>r. start_time r \<ge> next_day_utc \<and> start_time r < next_day_utc + 86400
                    \<and> start_time r < end \<and> not_existing existing_event r) (slots session) \<noteq> None)"

text \<open>Decimal digits of a key, for the f-string of the conflict message.\<close>

fun str_nat :: "nat \<Rightarrow> string" where
  "str_nat n =
     (if n < 10 then [char_of (48 + n)]
      else str_nat (n div 10) @ [char_of (48 + n mod 10)])"

declare str_nat.simps [simp del]

text \<open>The check constraints of the table \<^verbatim>\<open>slots\<close>; a commit that violates one raises.\<close>

datatype error = IntegrityError

definition slot_constraints :: "slot \<Rightarrow> bool" where
  "slot_constraints r \<longleftrightarrow>
     start_time r < end_time r
     \<and> (case weather_rating r of None \<Rightarrow> True | Some x \<Rightarrow> 0 \<le> x \<and> x \<le> 100)
     \<and> max_bookings r \<ge> 0"

text \<open>
  \<^verbatim>\<open>_save_event\<close>: the message (or the exception of the commit) and the session left
  behind. \<open>existing_event\<close> is the slot being edited, if any.
\<close>

definition save_event ::
  "state \<Rightarrow> slot option \<Rightarrow> event_data \<Rightarrow> (error + string) \<times> state" where
  "save_event session existing_event data =
     (let start = ed_start_time data;
          end = ed_end_time data
      in if check_same_day_start session existing_event start
         then (Inr ''Only one event can start per day.'', session)
         else if check_prev_day_overlap session existing_event start
         then (Inr ''Start time overlaps with previous day's event.'', session)
         else if check_next_day_overlap session existing_event end
         then (Inr ''End time overlaps with next day's event.'', session)
         else
           (case find (\<lambda>r. end_time r > start \<and> start_time r < end
                            \<and> not_existing existing_event r) (slots session) of
              Some overlapping_event \<Rightarrow>
                (Inr (''Time conflict with another event (ID: ''
                      @ str_nat (s_id overlapping_event) @ '').''), session)
            | None \<Rightarrow>
                (let weather_info = ed_weather_info data
                 in case existing_event of
                      Some e \<Rightarrow>
                        (let upd = (\<lambda>r. r\<lparr>title := ed_title data,
                                           description := ed_description data,
                                           end_time := end, start_time := start,
                                           max_bookings := ed_max_bookings data,
                                           weather_rating := condition_rating weather_info,
                                           weather_warning := wi_weather_warning weather_info,
                                           weather_forecast := wi_weather_forecast weather_info,
                                           available := True\<rparr>)
                         in if list_all (\<lambda>r. s_id r = s_id e \<longrightarrow> slot_constraints (upd r))
                                 (slots session)
                            then (Inr ''Event updated successfully.'',
                                  session\<lparr>slots := map (\<lambda>r. if s_id r = s_id e then upd r else r)
                                                       (slots session)\<rparr>)
                            else (Inl IntegrityError, session))
                    | None \<Rightarrow>
                        (let new_event =
                               \<lparr>s_id = next_id (map s_id (slots session)),
                                title = ed_title data, description = ed_description data,
                                start_time = start, end_time = end, available = True,
                                weather_rating = condition_rating weather_info,
                                max_bookings = ed_max_bookings data,
                                weather_warning = wi_weather_warning weather_info,
                                weather_forecast = wi_weather_forecast weather_info\<rparr>
                         in if slot_constraints new_event
                            then (Inr ''Event created successfully.'',
                                  session\<lparr>slots := slots session @ [new_event]\<rparr>)
                            else (Inl IntegrityError, session)))))"

subsection \<open>Weather of an event (\<^verbatim>\<open>app/services/weather_service.py\<close>)\<close>

text \<open>
  The dictionary returned by \<^verbatim>\<open>fetch_weather_data\<close>. Its keys are aware datetimes of
  the zone the forecast was asked for; two such keys are equal when their readings are,
  so the dictionary is keyed by the reading. The HTTP call and its cache are outside the
  program: the function \<open>fetch\<close> below stands for whatever they return (the empty
  dictionary on failure).
\<close>

type_synonym forecast = "int \<rightharpoonup> metrics"

text \<open>\<^verbatim>\<open>_generate_hourly_range\<close>: the readings, in the zone \<open>tz_str\<close>, of the hours generated.\<close>

definition generate_hourly_range ::
  "(string \<Rightarrow> ZoneInfo) \<Rightarrow> datetime \<Rightarrow> datetime \<Rightarrow> string \<Rightarrow> int list" where
  "generate_hourly_range zones start end tz_str =
     (let tz = zones tz_str;
          start = (case start of Naive w \<Rightarrow> w | Aware w z \<Rightarrow> astimezone w z tz);
          end = (case end of Naive w \<Rightarrow> w | Aware w z \<Rightarrow> astimezone w z tz);
          start = replace_hour_start start;
          total_hours = (end - start) div 3600 + 1
      in map (\<lambda>i. start + 3600 * i) [0..total_hours - 1])"

text \<open>The comprehension \<^verbatim>\<open>[data[hour] for hour in hourly_range if hour in data]\<close>.\<close>

definition hourly_data_of :: "forecast \<Rightarrow> int list \<Rightarrow> metrics list" where
  "hourly_data_of weather_data hourly_range = List.map_filter weather_data hourly_range"

definition get_event_weather ::
  "(string \<Rightarrow> ZoneInfo) \<Rightarrow> (real \<Rightarrow> real \<Rightarrow> string \<Rightarrow> forecast) \<Rightarrow>
     datetime \<Rightarrow> datetime \<Rightarrow> configuration \<Rightarrow> real option \<times> bool \<times> bool" where
  "get_event_weather zones fetch event_start event_end config =
     (let weather_data = fetch (latitude config) (longitude config) (timezone config);
          hourly_range = generate_hourly_range zones event_start event_end (timezone config);
          hourly_data = hourly_data_of weather_data hourly_range;
          rating = (if hourly_data \<noteq> [] then Some (calculate_average_weather_rating hourly_data)
                    else None);
          weather_warning = (case rating of None \<Rightarrow> False
                             | Some x \<Rightarrow> x < real_of_int (weather_threshold config))
      in (rating, weather_warning, hourly_data \<noteq> []))"

text \<open>\<^verbatim>\<open>_update_event_weather\<close>; the stored times of the event are naive.\<close>

definition update_event_weather ::
  "(string \<Rightarrow> ZoneInfo) \<Rightarrow> slot \<Rightarrow> forecast \<Rightarrow> configuration \<Rightarrow> slot" where
  "update_event_weather zones event forecast_data config =
     (let hourly_range = generate_hourly_range zones (Naive (start_time event))
                           (Naive (end_time event)) (timezone config);
          hourly_data = hourly_data_of forecast_data hourly_range
      in if hourly_data \<noteq> []
         then (let event = event\<lparr>weather_rating := Some (calculate_average_weather_rating hourly_data)\<rparr>;
                   event = event\<lparr>weather_warning :=
                                   the (weather_rating event) < real_of_int (weather_threshold config)\<rparr>
               in event\<lparr>weather_forecast := True\<rparr>)
         else event\<lparr>weather_forecast := False\<rparr>)"

text \<open>
  \<^verbatim>\<open>_get_upcoming_events\<close> at clock reading \<open>clock\<close> (UTC). The query has no
  \<^verbatim>\<open>ORDER BY\<close>, so the store may return the selected rows in any order; the caller
  counts them and visits each once, so the result is kept as the set of the rows
  selected.
\<close>

definition get_upcoming_events ::
  "(string \<Rightarrow> ZoneInfo) \<Rightarrow> int \<Rightarrow> state \<Rightarrow> string \<Rightarrow> slot set" where
  "get_upcoming_events zones clock session timezone_str =
     (let tz = zones timezone_str;
          now_local = fromutc tz clock;
          now_utc = astimezone now_local tz utc;
          future_utc = astimezone (now_local + 7 * 86400) tz utc
      in set (filter (\<lambda>r. start_time r \<ge> now_utc \<and> start_time r \<le> future_utc)
                (slots session)))"

text \<open>
  \<^verbatim>\<open>update_events_weather\<close>: every selected slot object is updated in place and the
  commit writes it back to its own row, whatever the order of the visits. A commit that
  violates a check constraint of the table raises; the handler logs it and rolls the
  session back.
\<close>

definition update_events_weather ::
  "(string \<Rightarrow> ZoneInfo) \<Rightarrow> (real \<Rightarrow> real \<Rightarrow> string \<Rightarrow> forecast) \<Rightarrow> int \<Rightarrow> state \<Rightarrow> state" where
  "update_events_weather zones fetch clock s =
     (let (config, session) = get_config s;
          forecast_data = fetch (latitude config) (longitude config) (timezone config);
          events = get_upcoming_events zones clock session (timezone config);
          rows = map (\<lambda>r. if s_id r \<in> s_id ` events
                          then update_event_weather zones r forecast_data config else r)
                   (slots session)
      in if list_all (\<lambda>r. s_id r \<in> s_id ` events \<longrightarrow> slot_constraints r) rows
         then session\<lparr>slots := rows\<rparr>
         else session)"

subsection \<open>The claims in the words of the specification\<close>

text \<open>
  The consistency of the materialised flag of a slot row with the ledger: the flag is
  false exactly when the confirmed count has reached the capacity, and the count does
  not exceed the capacity.
\<close>

definition slot_consistent :: "state \<Rightarrow> slot \<Rightarrow> bool" where
  "slot_consistent db r \<longleftrightarrow>
     (\<not> available r \<longleftrightarrow> confirmed_count db (s_id r) \<ge> max_bookings r)
     \<and> confirmed_count db (s_id r) \<le> max_bookings r"

text \<open>The primary keys of the tables \<^verbatim>\<open>slots\<close> and \<^verbatim>\<open>bookings\<close>.\<close>

definition primary_keys :: "state \<Rightarrow> bool" where
  "primary_keys db \<longleftrightarrow> distinct (map s_id (slots db)) \<and> distinct (map b_id (bookings db))"


text \<open>
  The overlap rules as the specification words them, for a new interval
  \<open>[start, end)\<close> and another slot \<open>r\<close>: rule 1, \<open>r\<close> starts on the UTC day of \<open>start\<close>;
  rule 2, \<open>r\<close> starts on the day before and ends after \<open>start\<close>; rule 3, \<open>r\<close> starts on
  the day after and starts before \<open>end\<close>; rule 4, the intervals overlap. The number of
  the first rule that some other slot matches, if any.
\<close>

definition spec_rule :: "nat \<Rightarrow> int \<Rightarrow> int \<Rightarrow> slot \<Rightarrow> bool" where
  "spec_rule n start end r =
     (let day = replace_midnight start
      in if n = 1 then day \<le> start_time r \<and> start_time r < day + 86400
         else if n = 2 then day - 86400 \<le> start_time r \<and> start_time r < day \<and> end_time r > start
         else if n = 3 then day + 86400 \<le> start_time r \<and> start_time r < day + 2 * 86400
                            \<and> start_time r < end
         else end_time r > start \<and> start_time r < end)"

definition spec_first_rule :: "state \<Rightarrow> slot option \<Rightarrow> int \<Rightarrow> int \<Rightarrow> nat option" where
  "spec_first_rule session existing_event start end =
     find (\<lambda>n. list_ex (\<lambda>r. not_existing existing_event r \<and> spec_rule n start end r)
                  (slots session)) [1, 2, 3, 4]"

text \<open>The arithmetic mean of a list of ratings.\<close>

definition arithmetic_mean :: "real list \<Rightarrow> real" where
  "arithmetic_mean xs = sum_list xs / real (length xs)"

text \<open>
  The reading a datetime has on the clock of the zone \<open>tz\<close>: a naive one is taken as it
  is, an aware one is converted.
\<close>

definition reading_in :: "ZoneInfo \<Rightarrow> datetime \<Rightarrow> int" where
  "reading_in tz dt = (case dt of Naive w \<Rightarrow> w | Aware w z \<Rightarrow> astimezone w z tz)"

text \<open>The hours of a range for which the forecast has an entry.\<close>

definition matching_hours :: "forecast \<Rightarrow> int list \<Rightarrow> int list" where
  "matching_hours weather_data hours = filter (\<lambda>h. weather_data h \<noteq> None) hours"

subsection \<open>Example zones and states\<close>

text \<open>
  Two zones at their winter offsets, enough for dates in January: New York is five
  hours behind UTC, Rome one hour ahead. \<open>day0\<close> is 2025-01-15 00:00:00.
\<close>

definition new_york :: ZoneInfo where
  "new_york = \<lparr>zone_key = ''America/New_York'', utcoffset = (\<lambda>w. - 18000),
               fromutc = (\<lambda>t. t - 18000)\<rparr>"

definition rome :: ZoneInfo where
  "rome = \<lparr>zone_key = ''Europe/Rome'', utcoffset = (\<lambda>w. 3600), fromutc = (\<lambda>t. t + 3600)\<rparr>"

definition example_zones :: "string \<Rightarrow> ZoneInfo" where
  "example_zones k =
     (if k = ''America/New_York'' then new_york
      else if k = ''Europe/Rome'' then rome
      else utc)"

definition day0 :: int where
  "day0 = 1736899200"

definition no_weather :: WeatherInfo where
  "no_weather = \<lparr>condition_rating = None, wi_weather_warning = False,
                 wi_weather_forecast = False\<rparr>"

text \<open>An empty store with three users, configured for the zone \<open>k\<close>.\<close>

definition empty_store :: "string \<Rightarrow> state" where
  "empty_store k =
     \<lparr>users = [\<lparr>u_id = 1, blocked = False\<rparr>, \<lparr>u_id = 2, blocked = False\<rparr>,
               \<lparr>u_id = 3, blocked = False\<rparr>],
      slots = [], bookings = [],
      config_row = Some (default_configuration\<lparr>timezone := k\<rparr>),
      rate_limit_store = (\<lambda>u. [])\<rparr>"

text \<open>An evening event on \<open>day0\<close>, 18:00 to 22:00 in the zone \<open>tz\<close>, for \<open>n\<close> guests.\<close>

definition evening_event :: "ZoneInfo \<Rightarrow> int \<Rightarrow> event_data" where
  "evening_event tz n =
     (let times = calculate_event_times_full day0 (18 * 3600) (22 * 3600) tz
      in \<lparr>ed_title = ''Perseids'', ed_description = ''Meteor watch'', ed_max_bookings = n,
          ed_start_time = start_utc times, ed_end_time = end_utc times,
          ed_weather_info = no_weather\<rparr>)"

text \<open>The slot object a request to edit the event \<open>k\<close> loads.\<close>

definition slot_by_id :: "state \<Rightarrow> nat \<Rightarrow> slot option" where
  "slot_by_id db k = find (\<lambda>r. s_id r = k) (slots db)"

text \<open>
  A run of the services on a store configured for UTC: the evening event is created for
  two guests, users 1 and 2 book it, and then the administrator edits the event, lowering
  its capacity to one.
\<close>

definition trace_created :: state where
  "trace_created = snd (save_event (empty_store ''UTC'') None (evening_event utc 2))"

definition trace_booked :: state where
  "trace_booked = snd (book_slot example_zones day0 trace_created 1 1)"

definition trace_full :: state where
  "trace_full = snd (book_slot example_zones (day0 + 60) trace_booked 2 1)"

definition trace_edited :: state where
  "trace_edited = snd (save_event trace_full (slot_by_id trace_full 1) (evening_event utc 1))"

text \<open>
  A store configured for New York in which the administrator has scheduled the evening
  event: 18:00 local time is 23:00 UTC, which is the \<open>start_time\<close> stored.
\<close>

definition ny_store :: state where
  "ny_store = snd (save_event (empty_store ''America/New_York'') None (evening_event new_york 2))"

text \<open>
  A store configured for UTC that holds one event on the day after \<open>day0\<close>, from 01:00
  to 03:00, and a request for an overnight event from 22:00 on \<open>day0\<close> to 02:00 on the
  day after.
\<close>

definition late_event :: event_data where
  "late_event =
     \<lparr>ed_title = ''Moon'', ed_description = ''Lunar night'', ed_max_bookings = 5,
      ed_start_time = day0 + 86400 + 3600, ed_end_time = day0 + 86400 + 3 * 3600,
      ed_weather_info = no_weather\<rparr>"

definition overnight_event :: event_data where
  "overnight_event =
     \<lparr>ed_title = ''Saturn'', ed_description = ''Overnight'', ed_max_bookings = 5,
      ed_start_time = day0 + 22 * 3600, ed_end_time = day0 + 86400 + 2 * 3600,
      ed_weather_info = no_weather\<rparr>"

definition next_day_store :: state where
  "next_day_store = snd (save_event (empty_store ''UTC'') None late_event)"

text \<open>
  The configuration of the UTC store, a forecast with entries for 18:00 (clear sky) and
  19:00 (overcast, rain) on \<open>day0\<close>, and a provider that returns it.
\<close>

definition utc_config :: configuration where
  "utc_config = default_configuration\<lparr>timezone := ''UTC''\<rparr>"

definition example_forecast :: forecast where
  "example_forecast = [day0 + 18 * 3600 \<mapsto> observation 0 0 0 20000,
                       day0 + 19 * 3600 \<mapsto> observation 100 100 10 0]"

definition example_fetch :: "real \<Rightarrow> real \<Rightarrow> string \<Rightarrow> forecast" where
  "example_fetch lat lon tz_str = example_forecast"

text \<open>A provider that has no forecast at all.\<close>

definition no_fetch :: "real \<Rightarrow> real \<Rightarrow> string \<Rightarrow> forecast" where
  "no_fetch lat lon tz_str = Map.empty"

text \<open>
  A store with the default configuration, whose zone is Rome, in which the
  administrator has scheduled the evening event: 18:00 to 22:00 local time is 17:00 to
  21:00 UTC, which are the times stored.
\<close>

definition rome_store :: state where
  "rome_store = snd (save_event (empty_store ''Europe/Rome'') None (evening_event rome 2))"

text \<open>The local and UTC times of the evening event in the zone \<open>tz\<close>.\<close>

definition evening_times :: "ZoneInfo \<Rightarrow> EventTimes" where
  "evening_times tz = calculate_event_times_full day0 (18 * 3600) (22 * 3600) tz"

text \<open>
  A forecast, keyed by Rome local time, whose only entry is a clear sky at 17:00 on
  \<open>day0\<close>, one hour before the evening event opens, and a provider that returns it.
\<close>

definition early_forecast :: forecast where
  "early_forecast = [day0 + 17 * 3600 \<mapsto> observation 0 0 0 20000]"

definition early_fetch :: "real \<Rightarrow> real \<Rightarrow> string \<Rightarrow> forecast" where
  "early_fetch lat lon tz_str = early_forecast"

subsection \<open>Properties of the rating\<close>

lemma get_or_observation:
  "get_or (observation c p d v) ''cloud_cover'' x = c"
  "get_or (observation c p d v) ''precipitation_probability'' x = p"
  "get_or (observation c p d v) ''dew_point'' x = d"
  "get_or (observation c p d v) ''visibility'' x = v"
  by (simp_all add: get_or_def observation_def)

lemma dew_rating_cases:
  "dew_rating d = (if d < 5 then 100 else if d \<le> 10 then 100 - (d - 5) * 20 else 0)"
proof -
  have "(d - 5) * (100 / (10 - 5)) = (d - 5) * 20"
    by simp
  then show ?thesis
    unfolding dew_rating_def DEW_POINT_THRESHOLD_LOW_def DEW_POINT_THRESHOLD_HIGH_def Let_def
    by presburger
qed

lemma dew_rating_range: "0 \<le> dew_rating d \<and> dew_rating d \<le> 100"
  by (simp add: dew_rating_cases)

lemma hourly_rating_observation:
  "calculate_hourly_rating (observation c p d v) =
     0.4 * max 0 (100 - c) + 0.3 * max 0 (100 - p) + 0.15 * dew_rating d
       + 0.15 * min 100 (v / 20000 * 100)"
  by (simp add: calculate_hourly_rating_def get_or_observation Let_def IDEAL_VISIBILITY_def
      WEIGHT_cloud_cover_def WEIGHT_precipitation_probability_def WEIGHT_dew_point_def
      WEIGHT_visibility_def)

text \<open>
  Claim C3. For an hourly observation with cloud cover \<open>c\<close>, precipitation probability
  \<open>p\<close>, dew point \<open>d\<close> and visibility \<open>v\<close> the rating is
  \<open>0.4 * max 0 (100 - c) + 0.3 * max 0 (100 - p) + 0.15 * dew d + 0.15 * min 100 (v / 20000 * 100)\<close>,
  where \<open>dew d\<close> is 100 below 5, falls linearly from 100 at 5 to 0 at 10, and is 0 above
  10. In particular the rating of \<open>(0, 0, 0, 20000)\<close> is 100, the rating of
  \<open>(100, 100, 10, 0)\<close> is 0, and \<open>dew 7.5 = 50\<close>.
\<close>

theorem hourly_rating_formula:
  "calculate_hourly_rating (observation c p d v) =
     0.4 * max 0 (100 - c) + 0.3 * max 0 (100 - p) + 0.15 * dew_rating d
       + 0.15 * min 100 (v / 20000 * 100)
   \<and> dew_rating d = (if d < 5 then 100 else if d \<le> 10 then 100 - (d - 5) * (100 / (10 - 5)) else 0)
   \<and> calculate_hourly_rating (observation 0 0 0 20000) = 100
   \<and> calculate_hourly_rating (observation 100 100 10 0) = 0
   \<and> dew_rating 7.5 = 50"
  by (simp add: hourly_rating_observation dew_rating_cases)

theorem hourly_rating_formula_witness:
  "calculate_hourly_rating (observation 30 20 7.5 10000) = 67"
proof -
  have "calculate_hourly_rating (observation 30 20 7.5 10000) =
          0.4 * max 0 (100 - 30) + 0.3 * max 0 (100 - 20) + 0.15 * dew_rating 7.5
            + 0.15 * min 100 (10000 / 20000 * 100)"
    using hourly_rating_formula [of 30 20 "7.5" 10000] by blast
  moreover have "dew_rating 7.5 = 50"
    using hourly_rating_formula [of 30 20 "7.5" 10000] by blast
  ultimately show ?thesis by simp
qed

text \<open>
  Claim C10. When the cloud cover and the precipitation probability of a metrics
  dictionary lie in \<open>[0, 100]\<close> and its visibility is not negative (whatever the dew
  point, and whichever keys are present), the hourly rating lies in \<open>[0, 100]\<close>. A
  dictionary with none of the four keys is scored with the defaults 100, 100, 10 and 0,
  which gives the rating 0.
\<close>

theorem hourly_rating_bounds:
  "(\<forall>c. weather ''cloud_cover'' = Some c \<longrightarrow> 0 \<le> c \<and> c \<le> 100) \<Longrightarrow>
   (\<forall>p. weather ''precipitation_probability'' = Some p \<longrightarrow> 0 \<le> p \<and> p \<le> 100) \<Longrightarrow>
   (\<forall>v. weather ''visibility'' = Some v \<longrightarrow> 0 \<le> v) \<Longrightarrow>
   0 \<le> calculate_hourly_rating weather \<and> calculate_hourly_rating weather \<le> 100
   \<and> get_or Map.empty ''cloud_cover'' 100 = 100
   \<and> get_or Map.empty ''precipitation_probability'' 100 = 100
   \<and> get_or Map.empty ''dew_point'' DEW_POINT_THRESHOLD_HIGH = 10
   \<and> get_or Map.empty ''visibility'' 0 = 0
   \<and> calculate_hourly_rating Map.empty = 0"
proof -
  assume c: "\<forall>c. weather ''cloud_cover'' = Some c \<longrightarrow> 0 \<le> c \<and> c \<le> 100"
    and p: "\<forall>p. weather ''precipitation_probability'' = Some p \<longrightarrow> 0 \<le> p \<and> p \<le> 100"
    and v: "\<forall>v. weather ''visibility'' = Some v \<longrightarrow> 0 \<le> v"
  define cr where "cr = max 0 (100 - get_or weather ''cloud_cover'' 100)"
  define pr where "pr = max 0 (100 - get_or weather ''precipitation_probability'' 100)"
  define dr where "dr = dew_rating (get_or weather ''dew_point'' DEW_POINT_THRESHOLD_HIGH)"
  define vr where "vr = min 100 (get_or weather ''visibility'' 0 / IDEAL_VISIBILITY * 100)"
  have cr: "0 \<le> cr \<and> cr \<le> 100"
    using c by (cases "weather ''cloud_cover''") (auto simp: cr_def get_or_def)
  have pr: "0 \<le> pr \<and> pr \<le> 100"
    using p by (cases "weather ''precipitation_probability''") (auto simp: pr_def get_or_def)
  have dr: "0 \<le> dr \<and> dr \<le> 100"
    unfolding dr_def by (rule dew_rating_range)
  have vr: "0 \<le> vr \<and> vr \<le> 100"
    using v by (cases "weather ''visibility''") (auto simp: vr_def get_or_def IDEAL_VISIBILITY_def)
  have r: "calculate_hourly_rating weather = 0.4 * cr + 0.3 * pr + 0.15 * dr + 0.15 * vr"
    by (simp add: calculate_hourly_rating_def Let_def cr_def pr_def dr_def vr_def
        WEIGHT_cloud_cover_def WEIGHT_precipitation_probability_def WEIGHT_dew_point_def
        WEIGHT_visibility_def)
  have lo: "0 \<le> calculate_hourly_rating weather"
    using cr pr dr vr unfolding r by simp
  have hi: "calculate_hourly_rating weather \<le> 100"
    using cr pr dr vr unfolding r by simp
  have e: "calculate_hourly_rating Map.empty = 0"
    by (simp add: calculate_hourly_rating_def Let_def get_or_def dew_rating_cases
        DEW_POINT_THRESHOLD_HIGH_def IDEAL_VISIBILITY_def)
  show ?thesis
    using lo hi e by (simp add: get_or_def DEW_POINT_THRESHOLD_HIGH_def)
qed

theorem hourly_rating_bounds_witness:
  "0 \<le> calculate_hourly_rating (observation 30 20 (-40) 50000)
   \<and> calculate_hourly_rating (observation 30 20 (-40) 50000) \<le> 100
   \<and> calculate_hourly_rating Map.empty = 0"
proof -
  have c: "\<forall>c. observation 30 20 (-40) 50000 ''cloud_cover'' = Some c \<longrightarrow> 0 \<le> c \<and> c \<le> 100"
    by (simp add: observation_def)
  have p: "\<forall>p. observation 30 20 (-40) 50000 ''precipitation_probability'' = Some p
             \<longrightarrow> 0 \<le> p \<and> p \<le> 100"
    by (simp add: observation_def)
  have v: "\<forall>v. observation 30 20 (-40) 50000 ''visibility'' = Some v \<longrightarrow> 0 \<le> v"
    by (simp add: observation_def)
  show ?thesis
    using hourly_rating_bounds [OF c p v] by simp
qed

subsection \<open>Properties of the booking ledger\<close>

lemma get_config_fields [simp]:
  "users (snd (get_config s)) = users s"
  "slots (snd (get_config s)) = slots s"
  "bookings (snd (get_config s)) = bookings s"
  "rate_limit_store (snd (get_config s)) = rate_limit_store s"
  by (simp_all add: get_config_def split: option.splits)

lemma get_config_rate [simp]:
  "fst (get_config (s\<lparr>rate_limit_store := x\<rparr>)) = fst (get_config s)"
  by (simp add: get_config_def split: option.splits)

lemma validate_Inl_not_success:
  "validate_user_and_slot s uid sid = Inl e \<Longrightarrow>
     e \<noteq> ''Booking confirmed.'' \<and> e \<noteq> ''Booking cancelled successfully.''"
  by (auto simp: validate_user_and_slot_def split: option.splits if_splits)

lemma validate_Inr:
  "validate_user_and_slot s uid sid = Inr (u, r) \<Longrightarrow>
     find (\<lambda>r. s_id r = sid) (slots s) = Some r
     \<and> find (\<lambda>u. u_id u = uid) (users s) = Some u \<and> \<not> blocked u"
  by (auto simp: validate_user_and_slot_def split: option.splits if_splits)

lemma find_Some_set: "find P xs = Some x \<Longrightarrow> x \<in> set xs \<and> P x"
  by (auto simp: find_Some_iff)

lemma key_unique:
  "distinct (map f xs) \<Longrightarrow> x \<in> set xs \<Longrightarrow> y \<in> set xs \<Longrightarrow> f x = f y \<Longrightarrow> x = y"
  by (meson distinct_map inj_onD)

lemma list_all_mapI: "(\<And>x. x \<in> set xs \<Longrightarrow> P (f x)) \<Longrightarrow> list_all P (map f xs)"
  by (simp add: list_all_iff)

text \<open>What a successful booking did.\<close>

lemma book_slot_confirmed:
  assumes "book_slot zones clock s uid sid = (''Booking confirmed.'', s')"
  shows "\<exists>u r. validate_user_and_slot s uid sid = Inr (u, r)
           \<and> \<not> fst (is_rate_limited clock uid (rate_limit_store s))
           \<and> fromutc (zones (timezone (fst (get_config s)))) clock < start_time r
           \<and> find (is_confirmed_for uid sid) (bookings s) = None
           \<and> confirmed_count s sid < max_bookings r
           \<and> bookings s' = bookings s @ [new_booking_of s uid sid]
           \<and> slots s' = (if confirmed_count s sid + 1 \<ge> max_bookings r
                          then set_available sid False (slots s) else slots s)
           \<and> users s' = users s"
proof (cases "validate_user_and_slot s uid sid")
  case (Inl e)
  then show ?thesis
    using assms validate_Inl_not_success [OF Inl] by (simp add: book_slot_def)
next
  case (Inr p)
  obtain u r where p: "p = (u, r)" by (cases p)
  show ?thesis
    using assms Inr p
    by (auto simp: book_slot_def Let_def split_beta new_booking_of_def confirmed_count_def
        split: if_splits option.splits)
qed

text \<open>What a successful cancellation did.\<close>

lemma cancel_booking_success:
  assumes "cancel_booking zones clock s uid sid = (''Booking cancelled successfully.'', s')"
  shows "\<exists>u r b. validate_user_and_slot s uid sid = Inr (u, r)
           \<and> \<not> fst (is_rate_limited clock uid (rate_limit_store s))
           \<and> find (is_confirmed_for uid sid) (bookings s) = Some b
           \<and> fromutc (zones (timezone (fst (get_config s)))) clock < start_time r
           \<and> bookings s' = filter (\<lambda>x. b_id x \<noteq> b_id b) (bookings s)
           \<and> slots s' = (if confirmed_count s' sid < max_bookings r
                          then set_available sid True (slots s) else slots s)
           \<and> users s' = users s"
proof (cases "validate_user_and_slot s uid sid")
  case (Inl e)
  then show ?thesis
    using assms validate_Inl_not_success [OF Inl] by (simp add: cancel_booking_def)
next
  case (Inr p)
  obtain u r where p: "p = (u, r)" by (cases p)
  show ?thesis
    using assms Inr p
    by (auto simp: cancel_booking_def Let_def split_beta confirmed_count_def
        split: if_splits option.splits)
qed

lemma count_after_insert:
  "bookings s' = bookings s @ [new_booking_of s uid sid] \<Longrightarrow>
   confirmed_count s' k = confirmed_count s k + (if k = sid then 1 else 0)"
  by (simp add: confirmed_count_def new_booking_of_def)

lemma length_filter_delete:
  "distinct (map b_id bs) \<Longrightarrow> b \<in> set bs \<Longrightarrow>
   int (length (filter P (filter (\<lambda>x. b_id x \<noteq> b_id b) bs)))
     = int (length (filter P bs)) - (if P b then 1 else 0)"
proof (induction bs)
  case Nil
  then show ?case by simp
next
  case (Cons a bs)
  show ?case
  proof (cases "a = b")
    case True
    then have "b_id b \<notin> b_id ` set bs"
      using Cons.prems by simp
    then have "\<forall>x\<in>set bs. b_id x \<noteq> b_id b"
      by (metis imageI)
    then have "filter (\<lambda>x. b_id x \<noteq> b_id b) bs = bs"
      by (rule filter_True)
    then show ?thesis
      using True by simp
  next
    case False
    then have "b \<in> set bs"
      using Cons.prems by simp
    moreover have "b_id a \<noteq> b_id b"
      using Cons.prems False \<open>b \<in> set bs\<close> by auto
    ultimately show ?thesis
      using Cons by (auto split: if_splits)
  qed
qed

lemma count_after_delete:
  assumes "distinct (map b_id (bookings s))" "b \<in> set (bookings s)"
    "is_confirmed_for uid sid b"
    "bookings s' = filter (\<lambda>x. b_id x \<noteq> b_id b) (bookings s)"
  shows "confirmed_count s' k = confirmed_count s k - (if k = sid then 1 else 0)"
  using length_filter_delete [OF assms(1,2), of "\<lambda>b. slot_id b = k \<and> status b = ''confirmed''"]
    assms(3,4)
  by (auto simp: confirmed_count_def is_confirmed_for_def)

text \<open>The definitions a run on a concrete store unfolds.\<close>

lemmas eval_defs =
  save_event_def empty_store_def evening_event_def book_slot_def cancel_booking_def
  calculate_event_times_full_def calculate_event_times_def astimezone_def utc_def new_york_def
  rome_def check_same_day_start_def check_prev_day_overlap_def check_next_day_overlap_def
  no_weather_def slot_constraints_def next_id_def Let_def validate_user_and_slot_def
  is_rate_limited_def get_config_def default_configuration_def example_zones_def
  confirmed_count_def day0_def MAX_REQUESTS_def RATE_LIMIT_SECONDS_def replace_midnight_def
  not_existing_def set_available_def is_confirmed_for_def new_booking_of_def slot_by_id_def

lemma trace_created_value:
  "trace_created =
     \<lparr>users = [\<lparr>u_id = 1, blocked = False\<rparr>, \<lparr>u_id = 2, blocked = False\<rparr>,
               \<lparr>u_id = 3, blocked = False\<rparr>],
      slots = [\<lparr>s_id = 1, title = ''Perseids'', description = ''Meteor watch'',
                start_time = day0 + 64800, end_time = day0 + 79200, available = True,
                weather_rating = None, max_bookings = 2, weather_warning = False,
                weather_forecast = False\<rparr>],
      bookings = [],
      config_row = Some (default_configuration\<lparr>timezone := ''UTC''\<rparr>),
      rate_limit_store = (\<lambda>u. [])\<rparr>"
  by (simp add: trace_created_def eval_defs)

lemma trace_booked_value:
  "trace_booked =
     \<lparr>users = [\<lparr>u_id = 1, blocked = False\<rparr>, \<lparr>u_id = 2, blocked = False\<rparr>,
               \<lparr>u_id = 3, blocked = False\<rparr>],
      slots = [\<lparr>s_id = 1, title = ''Perseids'', description = ''Meteor watch'',
                start_time = day0 + 64800, end_time = day0 + 79200, available = True,
                weather_rating = None, max_bookings = 2, weather_warning = False,
                weather_forecast = False\<rparr>],
      bookings = [\<lparr>b_id = 1, user_id = 1, slot_id = 1, status = ''confirmed''\<rparr>],
      config_row = Some (default_configuration\<lparr>timezone := ''UTC''\<rparr>),
      rate_limit_store = (\<lambda>u. [])(1 := [day0])\<rparr>"
  by (simp add: trace_booked_def trace_created_value eval_defs)

lemma trace_full_value:
  "trace_full =
     \<lparr>users = [\<lparr>u_id = 1, blocked = False\<rparr>, \<lparr>u_id = 2, blocked = False\<rparr>,
               \<lparr>u_id = 3, blocked = False\<rparr>],
      slots = [\<lparr>s_id = 1, title = ''Perseids'', description = ''Meteor watch'',
                start_time = day0 + 64800, end_time = day0 + 79200, available = False,
                weather_rating = None, max_bookings = 2, weather_warning = False,
                weather_forecast = False\<rparr>],
      bookings = [\<lparr>b_id = 1, user_id = 1, slot_id = 1, status = ''confirmed''\<rparr>,
                  \<lparr>b_id = 2, user_id = 2, slot_id = 1, status = ''confirmed''\<rparr>],
      config_row = Some (default_configuration\<lparr>timezone := ''UTC''\<rparr>),
      rate_limit_store = (\<lambda>u. [])(1 := [day0], 2 := [day0 + 60])\<rparr>"
  by (simp add: trace_full_def trace_booked_value eval_defs)

lemma trace_edited_value:
  "trace_edited =
     \<lparr>users = [\<lparr>u_id = 1, blocked = False\<rparr>, \<lparr>u_id = 2, blocked = False\<rparr>,
               \<lparr>u_id = 3, blocked = False\<rparr>],
      slots = [\<lparr>s_id = 1, title = ''Perseids'', description = ''Meteor watch'',
                start_time = day0 + 64800, end_time = day0 + 79200, available = True,
                weather_rating = None, max_bookings = 1, weather_warning = False,
                weather_forecast = False\<rparr>],
      bookings = [\<lparr>b_id = 1, user_id = 1, slot_id = 1, status = ''confirmed''\<rparr>,
                  \<lparr>b_id = 2, user_id = 2, slot_id = 1, status = ''confirmed''\<rparr>],
      config_row = Some (default_configuration\<lparr>timezone := ''UTC''\<rparr>),
      rate_limit_store = (\<lambda>u. [])(1 := [day0], 2 := [day0 + 60])\<rparr>"
  by (simp add: trace_edited_def trace_full_value eval_defs)

text \<open>
  Claim C1, as amended. Let the keys of the slot and booking tables be distinct and let
  every slot be consistent before the call: its \<open>available\<close> flag is false exactly when
  its confirmed count has reached \<open>max_bookings\<close>, and the count does not exceed
  \<open>max_bookings\<close>. Then after a successful \<open>book_slot\<close> and after a successful
  \<open>cancel_booking\<close> every slot is consistent again.
\<close>

theorem flag_consistency_preserved:
  assumes pk: "primary_keys s" and inv: "list_all (slot_consistent s) (slots s)"
    and op: "book_slot zones clock s uid sid = (''Booking confirmed.'', s')
             \<or> cancel_booking zones clock s uid sid = (''Booking cancelled successfully.'', s')"
  shows "list_all (slot_consistent s') (slots s')"
  using op
proof
  assume "book_slot zones clock s uid sid = (''Booking confirmed.'', s')"
  from book_slot_confirmed [OF this] obtain u r where
    v: "validate_user_and_slot s uid sid = Inr (u, r)"
    and lt: "confirmed_count s sid < max_bookings r"
    and b: "bookings s' = bookings s @ [new_booking_of s uid sid]"
    and sl: "slots s' = (if confirmed_count s sid + 1 \<ge> max_bookings r
                          then set_available sid False (slots s) else slots s)"
    by blast
  have r: "r \<in> set (slots s)" "s_id r = sid"
    using validate_Inr [OF v] find_Some_set by fastforce+
  have uniq: "\<And>x. x \<in> set (slots s) \<Longrightarrow> s_id x = sid \<Longrightarrow> x = r"
    using pk r key_unique [of s_id "slots s"] by (auto simp: primary_keys_def)
  have cnt: "\<And>k. confirmed_count s' k = confirmed_count s k + (if k = sid then 1 else 0)"
    using count_after_insert [OF b] .
  have step: "slot_consistent s' (if confirmed_count s sid + 1 \<ge> max_bookings r \<and> s_id x = sid
                                 then x\<lparr>available := False\<rparr> else x)"
    if x: "x \<in> set (slots s)" for x
  proof -
    have ix: "slot_consistent s x"
      using inv x by (simp add: list_all_iff)
    show ?thesis
    proof (cases "s_id x = sid")
      case True
      then have "x = r" using uniq x by blast
      then show ?thesis
        using ix lt True by (auto simp: slot_consistent_def cnt)
    next
      case False
      then show ?thesis
        using ix by (auto simp: slot_consistent_def cnt)
    qed
  qed
  show ?thesis
  proof (cases "confirmed_count s sid + 1 \<ge> max_bookings r")
    case True
    then have "slots s' = map (\<lambda>x. if s_id x = sid then x\<lparr>available := False\<rparr> else x) (slots s)"
      by (simp add: sl set_available_def)
    then show ?thesis
      using step True by (auto intro!: list_all_mapI)
  next
    case False
    then show ?thesis
      using step by (simp add: sl list_all_iff)
  qed
next
  assume "cancel_booking zones clock s uid sid = (''Booking cancelled successfully.'', s')"
  from cancel_booking_success [OF this] obtain u r b where
    v: "validate_user_and_slot s uid sid = Inr (u, r)"
    and f: "find (is_confirmed_for uid sid) (bookings s) = Some b"
    and bk: "bookings s' = filter (\<lambda>x. b_id x \<noteq> b_id b) (bookings s)"
    and sl: "slots s' = (if confirmed_count s' sid < max_bookings r
                          then set_available sid True (slots s) else slots s)"
    by blast
  have r: "r \<in> set (slots s)" "s_id r = sid"
    using validate_Inr [OF v] find_Some_set by fastforce+
  have uniq: "\<And>x. x \<in> set (slots s) \<Longrightarrow> s_id x = sid \<Longrightarrow> x = r"
    using pk r key_unique [of s_id "slots s"] by (auto simp: primary_keys_def)
  have bb: "b \<in> set (bookings s)" "is_confirmed_for uid sid b"
    using find_Some_set [OF f] by auto
  have cnt: "\<And>k. confirmed_count s' k = confirmed_count s k - (if k = sid then 1 else 0)"
    using count_after_delete [OF _ bb bk] pk by (simp add: primary_keys_def)
  have ir: "slot_consistent s r"
    using inv r by (simp add: list_all_iff)
  have below: "confirmed_count s' sid < max_bookings r"
    using ir r by (simp add: cnt slot_consistent_def)
  have step: "slot_consistent s' (if s_id x = sid then x\<lparr>available := True\<rparr> else x)"
    if x: "x \<in> set (slots s)" for x
  proof -
    have ix: "slot_consistent s x"
      using inv x by (simp add: list_all_iff)
    show ?thesis
    proof (cases "s_id x = sid")
      case True
      then have "x = r" using uniq x by blast
      then show ?thesis
        using ix below True by (auto simp: slot_consistent_def cnt)
    next
      case False
      then show ?thesis
        using ix by (auto simp: slot_consistent_def cnt)
    qed
  qed
  have "slots s' = map (\<lambda>x. if s_id x = sid then x\<lparr>available := True\<rparr> else x) (slots s)"
    using below by (simp add: sl set_available_def)
  then show ?thesis
    using step by (auto intro!: list_all_mapI)
qed

text \<open>
  The theorem at work: the second booking of the run fills the event (the flag goes to
  false), and the cancellation that follows reopens it.
\<close>

theorem flag_consistency_preserved_witness:
  "primary_keys trace_full
   \<and> list_all (slot_consistent trace_full) (slots trace_full)
   \<and> fst (cancel_booking example_zones (day0 + 120) trace_full 2 1)
       = ''Booking cancelled successfully.''
   \<and> list_all (slot_consistent (snd (cancel_booking example_zones (day0 + 120) trace_full 2 1)))
       (slots (snd (cancel_booking example_zones (day0 + 120) trace_full 2 1)))
   \<and> map available (slots (snd (cancel_booking example_zones (day0 + 120) trace_full 2 1)))
       = [True]"
proof -
  have pk: "primary_keys trace_full"
    by (simp add: primary_keys_def trace_full_value)
  have inv: "list_all (slot_consistent trace_full) (slots trace_full)"
    by (simp add: slot_consistent_def confirmed_count_def trace_full_value)
  have m: "fst (cancel_booking example_zones (day0 + 120) trace_full 2 1)
             = ''Booking cancelled successfully.''"
    by (simp add: trace_full_value eval_defs)
  have a: "map available (slots (snd (cancel_booking example_zones (day0 + 120) trace_full 2 1)))
             = [True]"
    by (simp add: trace_full_value eval_defs)
  have op: "cancel_booking example_zones (day0 + 120) trace_full 2 1
              = (''Booking cancelled successfully.'',
                 snd (cancel_booking example_zones (day0 + 120) trace_full 2 1))"
    using m by (simp add: prod_eq_iff)
  show ?thesis
    using flag_consistency_preserved [OF pk inv disjI2 [OF op]] pk inv m a by simp
qed

text \<open>
  Claim C1 as stated fails after an edit of the event. In the run above the event is full
  (two of two) when the administrator lowers its capacity to one; \<open>save_event\<close> sets
  the flag to true. User 1 then cancels successfully: one confirmed booking remains, the
  capacity is one, and the flag is still true.
\<close>

theorem flag_consistency_counterexample:
  "fst (save_event trace_full (slot_by_id trace_full 1) (evening_event utc 1))
     = Inr ''Event updated successfully.''
   \<and> fst (cancel_booking example_zones (day0 + 120) trace_edited 1 1)
       = ''Booking cancelled successfully.''
   \<and> map available (slots (snd (cancel_booking example_zones (day0 + 120) trace_edited 1 1)))
       = [True]
   \<and> map max_bookings (slots (snd (cancel_booking example_zones (day0 + 120) trace_edited 1 1)))
       = [1]
   \<and> confirmed_count (snd (cancel_booking example_zones (day0 + 120) trace_edited 1 1)) 1 = 1"
  by (simp add: trace_edited_value trace_full_value eval_defs)

lemma validate_InrI:
  "find (\<lambda>u. u_id u = uid) (users s) = Some u \<Longrightarrow> \<not> blocked u \<Longrightarrow>
   find (\<lambda>r. s_id r = sid) (slots s) = Some r \<Longrightarrow>
   validate_user_and_slot s uid sid = Inr (u, r)"
  by (simp add: validate_user_and_slot_def)

text \<open>
  Claim C7. When the user exists and is not blocked, the slot exists, the caller passes
  the rate limiter and no confirmed booking exists for the pair, \<open>cancel_booking\<close>
  returns "No active booking found for this event." and changes nothing in the store
  (the rate limiter alone records the request): no booking row is removed, and every
  slot row, its \<open>available\<close> flag included, is as before.
\<close>

theorem cancel_without_booking:
  assumes u: "find (\<lambda>u. u_id u = uid) (users s) = Some u" and nb: "\<not> blocked u"
    and r: "find (\<lambda>r. s_id r = sid) (slots s) = Some r"
    and rl: "\<not> fst (is_rate_limited clock uid (rate_limit_store s))"
    and none: "find (is_confirmed_for uid sid) (bookings s) = None"
  shows "cancel_booking zones clock s uid sid
           = (''No active booking found for this event.'',
              s\<lparr>rate_limit_store := snd (is_rate_limited clock uid (rate_limit_store s))\<rparr>)
         \<and> bookings (snd (cancel_booking zones clock s uid sid)) = bookings s
         \<and> slots (snd (cancel_booking zones clock s uid sid)) = slots s
         \<and> users (snd (cancel_booking zones clock s uid sid)) = users s
         \<and> config_row (snd (cancel_booking zones clock s uid sid)) = config_row s"
  using validate_InrI [OF u nb r] rl none
  by (simp add: cancel_booking_def Let_def split_beta)

theorem cancel_without_booking_witness:
  "cancel_booking example_zones day0 trace_booked 3 1
     = (''No active booking found for this event.'',
        trace_booked\<lparr>rate_limit_store := (rate_limit_store trace_booked)(3 := [day0])\<rparr>)
   \<and> bookings (snd (cancel_booking example_zones day0 trace_booked 3 1)) = bookings trace_booked
   \<and> slots (snd (cancel_booking example_zones day0 trace_booked 3 1)) = slots trace_booked"
proof -
  have u: "find (\<lambda>u. u_id u = 3) (users trace_booked) = Some \<lparr>u_id = 3, blocked = False\<rparr>"
    by (simp add: trace_booked_value)
  have nb: "\<not> blocked \<lparr>u_id = 3, blocked = False\<rparr>"
    by simp
  obtain r where r: "find (\<lambda>r. s_id r = 1) (slots trace_booked) = Some r"
    by (simp add: trace_booked_value)
  have rl: "\<not> fst (is_rate_limited day0 3 (rate_limit_store trace_booked))"
    by (simp add: trace_booked_value is_rate_limited_def MAX_REQUESTS_def)
  have none: "find (is_confirmed_for 3 1) (bookings trace_booked) = None"
    by (simp add: trace_booked_value is_confirmed_for_def)
  have st: "snd (is_rate_limited day0 3 (rate_limit_store trace_booked))
              = (rate_limit_store trace_booked)(3 := [day0])"
    by (simp add: trace_booked_value is_rate_limited_def MAX_REQUESTS_def)
  show ?thesis
    using cancel_without_booking [OF u nb r rl none, of example_zones] st by simp
qed







lemma next_id_fresh: "x \<in> set ids \<Longrightarrow> x < next_id ids"
proof -
  assume "x \<in> set ids"
  then have "x \<le> Max (set (0 # ids))"
    by simp
  moreover have "fold max ids 0 = Max (set (0 # ids))"
    by (simp only: Max.set_eq_fold)
  ultimately show ?thesis
    by (simp add: next_id_def)
qed

lemma find_append_None: "find P xs = None \<Longrightarrow> find P (xs @ ys) = find P ys"
  by (induction xs) auto

lemma delete_new_booking:
  "filter (\<lambda>x. b_id x \<noteq> b_id (new_booking_of s uid sid)) (bookings s @ [new_booking_of s uid sid])
     = bookings s"
proof -
  have "\<forall>x\<in>set (bookings s). b_id x \<noteq> b_id (new_booking_of s uid sid)"
    using next_id_fresh [of _ "map b_id (bookings s)"] by (fastforce simp: new_booking_of_def)
  then have "filter (\<lambda>x. b_id x \<noteq> b_id (new_booking_of s uid sid)) (bookings s) = bookings s"
    by (rule filter_True)
  then show ?thesis by simp
qed

lemma find_new_booking:
  "find (is_confirmed_for uid sid) (bookings s) = None \<Longrightarrow>
   find (is_confirmed_for uid sid) (bookings s @ [new_booking_of s uid sid])
     = Some (new_booking_of s uid sid)"
  by (simp add: find_append_None new_booking_of_def is_confirmed_for_def)

lemma find_set_available:
  "find (\<lambda>r. s_id r = sid) (set_available k v rows)
     = map_option (\<lambda>r. if s_id r = k then r\<lparr>available := v\<rparr> else r) (find (\<lambda>r. s_id r = sid) rows)"
  by (induction rows) (auto simp: set_available_def)

lemma set_available_restore:
  assumes "distinct (map s_id rows)" "find (\<lambda>r. s_id r = sid) rows = Some r" "available r"
  shows "set_available sid True rows = rows"
    and "set_available sid True (set_available sid False rows) = rows"
proof -
  have r: "r \<in> set rows" "s_id r = sid"
    using find_Some_set [OF assms(2)] by auto
  have "\<And>x. x \<in> set rows \<Longrightarrow> s_id x = sid \<Longrightarrow> x = r"
    using key_unique [OF assms(1)] r by blast
  then have "\<And>x. x \<in> set rows \<Longrightarrow> (if s_id x = sid then x\<lparr>available := True\<rparr> else x) = x"
    using assms(3) by auto
  then show a: "set_available sid True rows = rows"
    unfolding set_available_def by (simp add: map_idI)
  have "set_available sid True (set_available sid False rows) = set_available sid True rows"
    by (simp add: set_available_def)
  then show "set_available sid True (set_available sid False rows) = rows"
    using a by simp
qed

lemma book_slot_success_fields:
  assumes v: "validate_user_and_slot s uid sid = Inr (u, r)"
    and rl: "\<not> fst (is_rate_limited clock uid (rate_limit_store s))"
    and t: "fromutc (zones (timezone (fst (get_config s)))) clock < start_time r"
    and none: "find (is_confirmed_for uid sid) (bookings s) = None"
    and cap: "confirmed_count s sid < max_bookings r"
    and noex: "\<not> list_ex (\<lambda>b. user_id b = uid \<and> slot_id b = sid) (bookings s)"
  shows "fst (book_slot zones clock s uid sid) = ''Booking confirmed.''"
    and "bookings (snd (book_slot zones clock s uid sid)) = bookings s @ [new_booking_of s uid sid]"
    and "slots (snd (book_slot zones clock s uid sid))
           = (if confirmed_count s sid + 1 \<ge> max_bookings r
              then set_available sid False (slots s) else slots s)"
    and "users (snd (book_slot zones clock s uid sid)) = users s"
    and "fst (get_config (snd (book_slot zones clock s uid sid))) = fst (get_config s)"
  using assms
  by (auto simp: book_slot_def Let_def split_beta new_booking_of_def confirmed_count_def
      get_config_def split: option.splits)

text \<open>
  Where both calls pass the guards as the code evaluates them, booking and then
  cancelling leaves the booking table and the slot table as they were.
\<close>

lemma book_then_cancel_roundtrip:
  assumes sk: "distinct (map s_id (slots s))"
    and st: "list_all (\<lambda>b. status b = ''confirmed'') (bookings s)"
    and u: "find (\<lambda>u. u_id u = uid) (users s) = Some u" and nb: "\<not> blocked u"
    and r: "find (\<lambda>r. s_id r = sid) (slots s) = Some r" and av: "available r"
    and rl: "\<not> fst (is_rate_limited clock uid (rate_limit_store s))"
    and t: "fromutc (zones (timezone (fst (get_config s)))) clock < start_time r"
    and none: "find (is_confirmed_for uid sid) (bookings s) = None"
    and cap: "confirmed_count s sid < max_bookings r"
    and rl': "\<not> fst (is_rate_limited clock' uid
                      (rate_limit_store (snd (book_slot zones clock s uid sid))))"
    and t': "fromutc (zones (timezone (fst (get_config s)))) clock' < start_time r"
  shows "fst (book_slot zones clock s uid sid) = ''Booking confirmed.''
         \<and> fst (cancel_booking zones clock' (snd (book_slot zones clock s uid sid)) uid sid)
             = ''Booking cancelled successfully.''
         \<and> bookings (snd (cancel_booking zones clock' (snd (book_slot zones clock s uid sid)) uid sid))
             = bookings s
         \<and> slots (snd (cancel_booking zones clock' (snd (book_slot zones clock s uid sid)) uid sid))
             = slots s"
proof -
  define s1 where "s1 = snd (book_slot zones clock s uid sid)"
  have v: "validate_user_and_slot s uid sid = Inr (u, r)"
    using u nb r by (rule validate_InrI)
  have noex: "\<not> list_ex (\<lambda>b. user_id b = uid \<and> slot_id b = sid) (bookings s)"
    using st none by (auto simp: list_ex_iff list_all_iff find_None_iff is_confirmed_for_def)
  note f = book_slot_success_fields [where zones = zones, OF v rl t none cap noex, folded s1_def]
  define r1 where "r1 = (if confirmed_count s sid + 1 \<ge> max_bookings r
                         then r\<lparr>available := False\<rparr> else r)"
  have sid: "s_id r = sid"
    using find_Some_set [OF r] by simp
  have fr1: "find (\<lambda>r. s_id r = sid) (slots s1) = Some r1"
    using r sid by (simp add: f(3) r1_def find_set_available)
  have v1: "validate_user_and_slot s1 uid sid = Inr (u, r1)"
    using u nb fr1 by (simp add: validate_InrI f(4))
  have r1: "start_time r1 = start_time r" "max_bookings r1 = max_bookings r"
    by (simp_all add: r1_def)
  have fb: "find (is_confirmed_for uid sid) (bookings s1) = Some (new_booking_of s uid sid)"
    using find_new_booking [OF none] by (simp add: f(2))
  have dl: "filter (\<lambda>x. b_id x \<noteq> b_id (new_booking_of s uid sid)) (bookings s1) = bookings s"
    unfolding f(2) by (rule delete_new_booking)
  have cnt: "int (length (filter (\<lambda>b. slot_id b = sid \<and> status b = ''confirmed'') (bookings s)))
               < max_bookings r"
    using cap by (simp add: confirmed_count_def)
  have rest: "set_available sid True (slots s1) = slots s"
    using set_available_restore [OF sk r av] by (simp add: f(3))
  have c: "cancel_booking zones clock' s1 uid sid
             = (''Booking cancelled successfully.'',
                (snd (get_config (s1\<lparr>rate_limit_store :=
                        snd (is_rate_limited clock' uid (rate_limit_store s1))\<rparr>)))
                  \<lparr>bookings := bookings s, slots := slots s\<rparr>)"
    using rl' t' cnt
    by (simp add: cancel_booking_def Let_def split_beta v1 fb f(5) r1 dl rest
        confirmed_count_def s1_def [symmetric])
  show ?thesis
    using f(1) c by (simp add: s1_def [symmetric])
qed

text \<open>What the time guard of \<open>book_slot\<close> compares, whatever the zone.\<close>

lemma book_slot_time_guard:
  assumes "validate_user_and_slot s uid sid = Inr (u, r)"
    and "\<not> fst (is_rate_limited clock uid (rate_limit_store s))"
  shows "fromutc (zones (timezone (fst (get_config s)))) clock \<ge> start_time r \<Longrightarrow>
           fst (book_slot zones clock s uid sid) = ''Event is no longer available for booking.''
           \<and> bookings (snd (book_slot zones clock s uid sid)) = bookings s"
    and "fst (book_slot zones clock s uid sid) = ''Booking confirmed.'' \<Longrightarrow>
           fromutc (zones (timezone (fst (get_config s)))) clock < start_time r"
  using assms
  by (auto simp: book_slot_def Let_def split_beta split: if_splits option.splits)

text \<open>
  Claim C5 at a failing input. The store is configured for New York; the event runs
  from 18:00 to 22:00 local time on \<open>day0\<close>, and \<open>calculate_event_times_full\<close> stores
  its start as 23:00 UTC. One hour after the event has started (00:00 UTC, 19:00 in New
  York) user 1 asks for a place. \<open>book_slot\<close> compares the local reading 19:00 with the
  stored reading 23:00 and confirms the booking.
\<close>

theorem booking_after_start_accepted:
  "start_utc (calculate_event_times_full day0 (18 * 3600) (22 * 3600) new_york) = day0 + 23 * 3600
   \<and> map start_time (slots ny_store) = [day0 + 23 * 3600]
   \<and> map_option timezone (config_row ny_store) = Some ''America/New_York''

   \<and> fst (book_slot example_zones (day0 + 24 * 3600) ny_store 1 1) = ''Booking confirmed.''
   \<and> map user_id (bookings (snd (book_slot example_zones (day0 + 24 * 3600) ny_store 1 1))) = [1]"
  by (simp add: ny_store_def eval_defs)

theorem booking_after_start_accepted_witness:
  "day0 + 24 * 3600 \<ge> start_utc (calculate_event_times_full day0 (18 * 3600) (22 * 3600) new_york)
   \<and> fst (book_slot example_zones (day0 + 24 * 3600) ny_store 1 1)
       \<noteq> ''Event is no longer available for booking.''"
  using booking_after_start_accepted by simp

text \<open>
  Claim C9 at a failing input. The store has the default configuration, zone Rome; the
  evening event opens at 18:00 local time, stored as 17:00 UTC. At 16:30 UTC, half an
  hour before the event opens, user 1 exists and is not blocked, the slot exists with
  \<open>available\<close> true, the rate limiter admits the caller, there is no booking and the
  count 0 is below the capacity 2. \<open>book_slot\<close> compares the local reading 17:30 with
  the stored reading 17:00 and answers that the event is no longer available; nothing is
  booked, so there is nothing to cancel.
\<close>

theorem roundtrip_refused_before_start:
  "map start_time (slots rome_store) = [day0 + 17 * 3600]
   \<and> map available (slots rome_store) = [True]
   \<and> map max_bookings (slots rome_store) = [2]
   \<and> map u_id (filter (\<lambda>u. \<not> blocked u) (users rome_store)) = [1, 2, 3]
   \<and> bookings rome_store = []
   \<and> confirmed_count rome_store 1 = 0
   \<and> \<not> fst (is_rate_limited (day0 + 16 * 3600 + 1800) 1 (rate_limit_store rome_store))
   \<and> day0 + 16 * 3600 + 1800 < day0 + 17 * 3600
   \<and> fst (book_slot example_zones (day0 + 16 * 3600 + 1800) rome_store 1 1)
       = ''Event is no longer available for booking.''
   \<and> bookings (snd (book_slot example_zones (day0 + 16 * 3600 + 1800) rome_store 1 1)) = []
   \<and> fst (cancel_booking example_zones (day0 + 16 * 3600 + 1860)
             (snd (book_slot example_zones (day0 + 16 * 3600 + 1800) rome_store 1 1)) 1 1)
       = ''No active booking found for this event.''"
  by (simp add: rome_store_def eval_defs)

theorem roundtrip_refused_before_start_witness:
  "fst (book_slot example_zones (day0 + 16 * 3600 + 1800) rome_store 1 1)
     \<noteq> ''Booking confirmed.''
   \<and> fst (cancel_booking example_zones (day0 + 16 * 3600 + 1860)
             (snd (book_slot example_zones (day0 + 16 * 3600 + 1800) rome_store 1 1)) 1 1)
       \<noteq> ''Booking cancelled successfully.''"
  using roundtrip_refused_before_start by simp

subsection \<open>Properties of the scheduler\<close>

text \<open>
  The third check can never answer yes: it asks for a slot that starts on the UTC day
  after the day of \<open>end\<close> and yet before \<open>end\<close>.
\<close>

lemma check_next_day_overlap_never: "\<not> check_next_day_overlap session existing_event end"
proof -
  have "end < replace_midnight end + 86400"
    by (simp add: replace_midnight_def)
  then have "\<And>r. \<not> (start_time r \<ge> replace_midnight end + 86400
                     \<and> start_time r < replace_midnight end + 86400 + 86400
                     \<and> start_time r < end \<and> not_existing existing_event r)"
    by linarith
  then show ?thesis
    by (simp add: check_next_day_overlap_def Let_def find_None_iff)
qed

lemma str_nat_1: "str_nat (Suc 0) = ''1''"
  by code_simp

text \<open>The order of the checks that can fire, and their messages; a rejection writes nothing.\<close>

lemma save_event_order:
  "check_same_day_start session existing_event (ed_start_time data) \<Longrightarrow>
     save_event session existing_event data = (Inr ''Only one event can start per day.'', session)"
  "\<not> check_same_day_start session existing_event (ed_start_time data) \<Longrightarrow>
   check_prev_day_overlap session existing_event (ed_start_time data) \<Longrightarrow>
     save_event session existing_event data
       = (Inr ''Start time overlaps with previous day's event.'', session)"
  "\<not> check_same_day_start session existing_event (ed_start_time data) \<Longrightarrow>
   \<not> check_prev_day_overlap session existing_event (ed_start_time data) \<Longrightarrow>
   find (\<lambda>r. end_time r > ed_start_time data \<and> start_time r < ed_end_time data
              \<and> not_existing existing_event r) (slots session) = Some x \<Longrightarrow>
     save_event session existing_event data
       = (Inr (''Time conflict with another event (ID: '' @ str_nat (s_id x) @ '').''), session)"
  by (simp_all add: save_event_def Let_def check_next_day_overlap_never)

lemma save_event_no_write_on_rejection:
  "fst (save_event session existing_event data) \<noteq> Inr ''Event updated successfully.'' \<Longrightarrow>
   fst (save_event session existing_event data) \<noteq> Inr ''Event created successfully.'' \<Longrightarrow>
   snd (save_event session existing_event data) = session"
  by (auto simp: save_event_def Let_def split: if_splits option.splits)


text \<open>
  Claim C4 at a failing input. The store holds an event from 01:00 to 03:00 on the day
  after \<open>day0\<close>; the administrator asks for an event from 22:00 on \<open>day0\<close> to 02:00 on
  the day after. No other slot starts on \<open>day0\<close> or the day before, and the stored
  event starts on the next day, before the new end: in the order of the specification
  rule 3 is the first to match. \<open>save_event\<close> answers with the message of rule 4.
\<close>

theorem overnight_conflict_reported_by_rule_four:
  "map (\<lambda>r. (s_id r, start_time r, end_time r)) (slots next_day_store)
     = [(1, day0 + 86400 + 3600, day0 + 86400 + 3 * 3600)]
   \<and> fst (save_event next_day_store None overnight_event)
       = Inr ''Time conflict with another event (ID: 1).''
   \<and> spec_first_rule next_day_store None (ed_start_time overnight_event)
        (ed_end_time overnight_event) = Some 3"
  by (simp add: next_day_store_def late_event_def overnight_event_def eval_defs str_nat_1
      spec_first_rule_def spec_rule_def)

theorem overnight_conflict_reported_by_rule_four_witness:
  "fst (save_event next_day_store None overnight_event)
     \<noteq> Inr ''End time overlaps with next day's event.''
   \<and> spec_first_rule next_day_store None (ed_start_time overnight_event)
        (ed_end_time overnight_event) \<noteq> Some 4"
  using overnight_conflict_reported_by_rule_four by simp

subsection \<open>Properties of the weather of an event\<close>

lemma hourly_range_list:
  "generate_hourly_range zones start end tz_str =
     map (\<lambda>i. replace_hour_start (reading_in (zones tz_str) start) + 3600 * i)
       [0..(reading_in (zones tz_str) end - replace_hour_start (reading_in (zones tz_str) start)) div 3600]"
  by (simp add: generate_hourly_range_def reading_in_def Let_def)

lemma le_div_iff_int:
  fixes a c k :: int
  assumes c: "0 < c"
  shows "k \<le> a div c \<longleftrightarrow> c * k \<le> a"
proof
  assume "k \<le> a div c"
  then have "c * k \<le> c * (a div c)"
    using c by (simp add: mult_left_mono)
  also have "\<dots> = a - a mod c"
    by (simp add: minus_mod_eq_mult_div)
  also have "\<dots> \<le> a"
    using c by simp
  finally show "c * k \<le> a" .
next
  assume "c * k \<le> a"
  then have "(c * k) div c \<le> a div c"
    using c by (rule zdiv_mono1)
  then show "k \<le> a div c"
    using c by simp
qed

lemma hourly_range_set:
  "set (generate_hourly_range zones start end tz_str) =
     {h. \<exists>k\<ge>0. h = replace_hour_start (reading_in (zones tz_str) start) + 3600 * k
               \<and> h \<le> reading_in (zones tz_str) end}"
proof -
  define s0 where "s0 = replace_hour_start (reading_in (zones tz_str) start)"
  define e where "e = reading_in (zones tz_str) end"
  have iff: "k \<le> (e - s0) div 3600 \<longleftrightarrow> s0 + 3600 * k \<le> e" for k :: int
    using le_div_iff_int [of 3600 k "e - s0"] by linarith
  have "set (map (\<lambda>i. s0 + 3600 * i) [0..(e - s0) div 3600])
          = (\<lambda>i. s0 + 3600 * i) ` {k. 0 \<le> k \<and> k \<le> (e - s0) div 3600}"
    by (simp add: atLeastAtMost_def atLeast_def atMost_def Int_def)
  also have "\<dots> = (\<lambda>i. s0 + 3600 * i) ` {k. 0 \<le> k \<and> s0 + 3600 * k \<le> e}"
    by (simp only: iff)
  also have "\<dots> = {h. \<exists>k\<ge>0. h = s0 + 3600 * k \<and> h \<le> e}"
    by blast
  finally show ?thesis
    unfolding hourly_range_list s0_def [symmetric] e_def [symmetric] .
qed

lemma hourly_data_of_filter:
  "hourly_data_of weather_data hours = map (\<lambda>h. the (weather_data h)) (filter (\<lambda>h. weather_data h \<noteq> None) hours)"
  by (induction hours) (auto simp: hourly_data_of_def List.map_filter_def)

lemma average_rating_mean:
  "calculate_average_weather_rating [] = 0"
  "ms \<noteq> [] \<Longrightarrow> calculate_average_weather_rating ms = arithmetic_mean (map calculate_hourly_rating ms)"
  by (simp_all add: calculate_average_weather_rating_def arithmetic_mean_def Let_def)

lemma event_weather_components:
  "(let weather_data = fetch (latitude config) (longitude config) (timezone config);
        tz = zones (timezone config);
        hours = generate_hourly_range zones event_start event_end (timezone config);
        matching = matching_hours weather_data hours;
        (rating, warning, present) = get_event_weather zones fetch event_start event_end config
    in (warning \<longleftrightarrow> (\<exists>x. rating = Some x \<and> x < real_of_int (weather_threshold config)))
       \<and> (present \<longleftrightarrow> (\<exists>h\<in>set hours. weather_data h \<noteq> None))
       \<and> set hours = {h. \<exists>k\<ge>0. h = replace_hour_start (reading_in tz event_start) + 3600 * k
                                \<and> h \<le> reading_in tz event_end}
       \<and> rating = (if matching = [] then None
                   else Some (arithmetic_mean
                                (map (\<lambda>h. calculate_hourly_rating (the (weather_data h))) matching)))
       \<and> (matching \<noteq> [] \<longrightarrow>
            rating = Some (calculate_average_weather_rating (map (\<lambda>h. the (weather_data h)) matching))))"
  by (auto simp: get_event_weather_def Let_def hourly_data_of_filter average_rating_mean
      hourly_range_set filter_empty_conv comp_def matching_hours_def split: option.splits)

text \<open>
  Claim C6, as amended. Let \<open>get_event_weather\<close> return \<open>(rating, warning, present)\<close>.
  The warning is true exactly when a rating is present and lies strictly below the
  threshold of the configuration. \<open>present\<close> is true exactly when the forecast has an
  entry for at least one hour of the range; the range consists of the start of the hour
  of \<open>event_start\<close> and every full hour after it up to and including \<open>event_end\<close>, read
  in the configured zone. The rating is the arithmetic mean of the hourly ratings of the
  hours that have an entry (what \<open>calculate_average_weather_rating\<close> returns for them),
  and it is absent, not 0, when no hour has an entry.
\<close>

theorem event_weather_result:
  assumes "get_event_weather zones fetch event_start event_end config = (rating, warning, present)"
  shows "(let weather_data = fetch (latitude config) (longitude config) (timezone config);
              tz = zones (timezone config);
              hours = generate_hourly_range zones event_start event_end (timezone config);
              matching = matching_hours weather_data hours
          in (warning \<longleftrightarrow> (\<exists>x. rating = Some x \<and> x < real_of_int (weather_threshold config)))
             \<and> (present \<longleftrightarrow> (\<exists>h\<in>set hours. weather_data h \<noteq> None))
             \<and> set hours = {h. \<exists>k\<ge>0. h = replace_hour_start (reading_in tz event_start) + 3600 * k
                                      \<and> h \<le> reading_in tz event_end}
             \<and> rating = (if matching = [] then None
                         else Some (arithmetic_mean
                                      (map (\<lambda>h. calculate_hourly_rating (the (weather_data h)))
                                         matching)))
             \<and> (matching \<noteq> [] \<longrightarrow>
                  rating = Some (calculate_average_weather_rating
                                   (map (\<lambda>h. the (weather_data h)) matching))))"
proof -
  have "case get_event_weather zones fetch event_start event_end config of
          (rating, warning, present) \<Rightarrow>
            (let weather_data = fetch (latitude config) (longitude config) (timezone config);
              tz = zones (timezone config);
              hours = generate_hourly_range zones event_start event_end (timezone config);
              matching = matching_hours weather_data hours
          in (warning \<longleftrightarrow> (\<exists>x. rating = Some x \<and> x < real_of_int (weather_threshold config)))
             \<and> (present \<longleftrightarrow> (\<exists>h\<in>set hours. weather_data h \<noteq> None))
             \<and> set hours = {h. \<exists>k\<ge>0. h = replace_hour_start (reading_in tz event_start) + 3600 * k
                                      \<and> h \<le> reading_in tz event_end}
             \<and> rating = (if matching = [] then None
                         else Some (arithmetic_mean
                                      (map (\<lambda>h. calculate_hourly_rating (the (weather_data h)))
                                         matching)))
             \<and> (matching \<noteq> [] \<longrightarrow>
                  rating = Some (calculate_average_weather_rating
                                   (map (\<lambda>h. the (weather_data h)) matching))))"
    using event_weather_components [of fetch config zones event_start event_end]
    unfolding Let_def .
  then show ?thesis
    unfolding assms prod.case .
qed

lemma example_range:
  "generate_hourly_range example_zones (Aware (day0 + 18 * 3600 + 900) utc)
      (Aware (day0 + 22 * 3600) utc) ''UTC''
     = [day0 + 18 * 3600, day0 + 19 * 3600, day0 + 20 * 3600, day0 + 21 * 3600, day0 + 22 * 3600]"
  by (simp add: generate_hourly_range_def example_zones_def utc_def astimezone_def
      replace_hour_start_def day0_def Let_def upto.simps)

lemma example_ratings:
  "calculate_hourly_rating (observation 0 0 0 20000) = 100"
  "calculate_hourly_rating (observation 100 100 10 0) = 0"
  by (simp_all add: hourly_rating_observation dew_rating_cases)

theorem event_weather_result_witness:
  "get_event_weather example_zones example_fetch (Aware (day0 + 18 * 3600 + 900) utc)
      (Aware (day0 + 22 * 3600) utc) utc_config = (Some 50, True, True)
   \<and> (\<exists>h\<in>set (generate_hourly_range example_zones (Aware (day0 + 18 * 3600 + 900) utc)
                   (Aware (day0 + 22 * 3600) utc) (timezone utc_config)).
         example_forecast h \<noteq> None)
   \<and> (\<exists>x. Some (50::real) = Some x \<and> x < real_of_int (weather_threshold utc_config))"
proof -
  have hours: "generate_hourly_range example_zones (Aware (day0 + 18 * 3600 + 900) utc)
      (Aware (day0 + 22 * 3600) utc) (timezone utc_config)
     = [day0 + 18 * 3600, day0 + 19 * 3600, day0 + 20 * 3600, day0 + 21 * 3600, day0 + 22 * 3600]"
    using example_range by (simp add: utc_config_def)
  have m: "filter (\<lambda>h. example_forecast h \<noteq> None)
             [day0 + 18 * 3600, day0 + 19 * 3600, day0 + 20 * 3600, day0 + 21 * 3600, day0 + 22 * 3600]
           = [day0 + 18 * 3600, day0 + 19 * 3600]"
    by (simp add: example_forecast_def day0_def)
  have d: "the (example_forecast (day0 + 18 * 3600)) = observation 0 0 0 20000"
    "the (example_forecast (day0 + 19 * 3600)) = observation 100 100 10 0"
    by (simp_all add: example_forecast_def day0_def)
  have avg: "calculate_average_weather_rating [observation 0 0 0 20000, observation 100 100 10 0] = 50"
    by (simp add: calculate_average_weather_rating_def example_ratings)
  have th: "weather_threshold utc_config = 70"
    by (simp add: utc_config_def default_configuration_def)
  have g: "get_event_weather example_zones example_fetch (Aware (day0 + 18 * 3600 + 900) utc)
             (Aware (day0 + 22 * 3600) utc) utc_config = (Some 50, True, True)"
    unfolding get_event_weather_def Let_def hours hourly_data_of_filter example_fetch_def m
    by (simp only: list.map d avg th) simp
  note F = event_weather_result [OF g, unfolded Let_def example_fetch_def]
  have a: "\<exists>x. Some (50::real) = Some x \<and> x < real_of_int (weather_threshold utc_config)"
    by (rule iffD1 [OF F [THEN conjunct1] TrueI])
  have b: "\<exists>h\<in>set (generate_hourly_range example_zones (Aware (day0 + 18 * 3600 + 900) utc)
                   (Aware (day0 + 22 * 3600) utc) (timezone utc_config)).
         example_forecast h \<noteq> None"
    by (rule iffD1 [OF F [THEN conjunct2, THEN conjunct1] TrueI])
  show ?thesis
    using g a b by (intro conjI)
qed

text \<open>
  Claim C6 as stated fails when no hour matches: with a provider that has no forecast
  the rating returned is absent, not 0, and so no warning is raised.
\<close>

theorem event_weather_result_counterexample:
  "get_event_weather example_zones no_fetch (Aware (day0 + 18 * 3600) utc)
      (Aware (day0 + 22 * 3600) utc) utc_config = (None, False, False)
   \<and> fst (get_event_weather example_zones no_fetch (Aware (day0 + 18 * 3600) utc)
            (Aware (day0 + 22 * 3600) utc) utc_config) \<noteq> Some 0"
  by (simp add: get_event_weather_def no_fetch_def hourly_data_of_filter Let_def)

lemma update_event_weather_cases:
  "(let hours = generate_hourly_range zones (Naive (start_time event)) (Naive (end_time event))
                  (timezone config);
        matching = matching_hours forecast_data hours;
        mean = arithmetic_mean (map (\<lambda>h. calculate_hourly_rating (the (forecast_data h))) matching)
    in update_event_weather zones event forecast_data config =
         (if matching = [] then event\<lparr>weather_forecast := False\<rparr>
          else event\<lparr>weather_rating := Some mean,
                     weather_warning := mean < real_of_int (weather_threshold config),
                     weather_forecast := True\<rparr>))"
  by (auto simp: update_event_weather_def Let_def hourly_data_of_filter average_rating_mean
      filter_empty_conv comp_def matching_hours_def)

lemma update_events_weather_frame:
  "bookings (update_events_weather zones fetch clock s) = bookings s"
  "users (update_events_weather zones fetch clock s) = users s"
  by (simp_all add: update_events_weather_def Let_def split_beta)

lemma rome_store_value:
  "rome_store =
     \<lparr>users = [\<lparr>u_id = 1, blocked = False\<rparr>, \<lparr>u_id = 2, blocked = False\<rparr>,
               \<lparr>u_id = 3, blocked = False\<rparr>],
      slots = [\<lparr>s_id = 1, title = ''Perseids'', description = ''Meteor watch'',
                start_time = day0 + 17 * 3600, end_time = day0 + 21 * 3600, available = True,
                weather_rating = None, max_bookings = 2, weather_warning = False,
                weather_forecast = False\<rparr>],
      bookings = [],
      config_row = Some (default_configuration\<lparr>timezone := ''Europe/Rome''\<rparr>),
      rate_limit_store = (\<lambda>u. [])\<rparr>"
  by (simp add: rome_store_def eval_defs)

lemma evening_times_rome:
  "start_local (evening_times rome) = day0 + 18 * 3600"
  "end_local (evening_times rome) = day0 + 22 * 3600"
  by (simp_all add: evening_times_def calculate_event_times_full_def calculate_event_times_def
      Let_def)

lemma creation_range:
  "generate_hourly_range example_zones (Aware (day0 + 18 * 3600) rome) (Aware (day0 + 22 * 3600) rome)
      ''Europe/Rome''
     = [day0 + 18 * 3600, day0 + 19 * 3600, day0 + 20 * 3600, day0 + 21 * 3600, day0 + 22 * 3600]"
  by (simp add: generate_hourly_range_def example_zones_def rome_def astimezone_def
      replace_hour_start_def day0_def Let_def upto.simps)

lemma refresh_range:
  "generate_hourly_range example_zones (Naive (day0 + 17 * 3600)) (Naive (day0 + 21 * 3600))
      ''Europe/Rome''
     = [day0 + 17 * 3600, day0 + 18 * 3600, day0 + 19 * 3600, day0 + 20 * 3600, day0 + 21 * 3600]"
  by (simp add: generate_hourly_range_def replace_hour_start_def day0_def Let_def upto.simps)

lemma default_zone: "timezone default_configuration = ''Europe/Rome''"
  "weather_threshold default_configuration = 70"
  by (simp_all add: default_configuration_def)

lemma creation_weather:
  "get_event_weather example_zones early_fetch (Aware (start_local (evening_times rome)) rome)
        (Aware (end_local (evening_times rome)) rome) default_configuration
       = (None, False, False)"
  unfolding get_event_weather_def Let_def evening_times_rome default_zone creation_range
    hourly_data_of_filter early_fetch_def
  by (simp add: early_forecast_def day0_def)

lemma upcoming:
  "get_upcoming_events example_zones day0 rome_store ''Europe/Rome'' = set (slots rome_store)"
  by (simp add: get_upcoming_events_def Let_def example_zones_def rome_def astimezone_def utc_def
      rome_store_value)

lemma refreshed_slot:
  assumes "start_time r = day0 + 17 * 3600" "end_time r = day0 + 21 * 3600"
  shows "update_event_weather example_zones r early_forecast default_configuration
           = r\<lparr>weather_rating := Some 100, weather_warning := False, weather_forecast := True\<rparr>"
proof -
  have m: "filter (\<lambda>h. early_forecast h \<noteq> None)
             [day0 + 17 * 3600, day0 + 18 * 3600, day0 + 19 * 3600, day0 + 20 * 3600, day0 + 21 * 3600]
           = [day0 + 17 * 3600]"
    by (simp add: early_forecast_def day0_def)
  have d: "the (early_forecast (day0 + 17 * 3600)) = observation 0 0 0 20000"
    by (simp add: early_forecast_def)
  have avg: "calculate_average_weather_rating [observation 0 0 0 20000] = 100"
    by (simp add: calculate_average_weather_rating_def example_ratings)
  show ?thesis
    unfolding update_event_weather_def Let_def assms default_zone refresh_range
      hourly_data_of_filter m
    by (simp only: list.map d avg) simp
qed

text \<open>
  Claim C8 at a failing input. The store is \<open>rome_store\<close>: the evening event runs from
  18:00 to 22:00 Rome time and is stored as 17:00 to 21:00 UTC. The forecast has one
  entry only, a clear sky at 17:00 Rome time, an hour before the event opens. At
  creation \<open>get_event_weather\<close> is given the local times, builds the hours 18:00 to
  22:00 and finds no forecast. The refresh at 00:00 UTC on \<open>day0\<close> selects the slot,
  hands the stored UTC readings to \<open>generate_hourly_range\<close>, which labels them as Rome
  time and builds the hours 17:00 to 21:00: the entry matches, and the slot gets the
  rating 100 and \<open>weather_forecast\<close> true although no forecast hour lies in its range.
\<close>

theorem refresh_rates_hour_before_event:
  "start_local (evening_times rome) = day0 + 18 * 3600
   \<and> end_local (evening_times rome) = day0 + 22 * 3600
   \<and> map (\<lambda>r. (s_id r, start_time r, end_time r, weather_rating r, weather_forecast r))
         (slots rome_store)
       = [(1, day0 + 17 * 3600, day0 + 21 * 3600, None, False)]
   \<and> map_option timezone (config_row rome_store) = Some ''Europe/Rome''
   \<and> get_event_weather example_zones early_fetch (Aware (start_local (evening_times rome)) rome)
        (Aware (end_local (evening_times rome)) rome) default_configuration
       = (None, False, False)
   \<and> s_id ` get_upcoming_events example_zones day0 rome_store ''Europe/Rome'' = {1}
   \<and> generate_hourly_range example_zones (Naive (day0 + 17 * 3600)) (Naive (day0 + 21 * 3600))
        ''Europe/Rome''
       = [day0 + 17 * 3600, day0 + 18 * 3600, day0 + 19 * 3600, day0 + 20 * 3600,
          day0 + 21 * 3600]
   \<and> map (\<lambda>r. (s_id r, weather_rating r, weather_warning r, weather_forecast r))
         (slots (update_events_weather example_zones early_fetch day0 rome_store))
       = [(1, Some 100, False, True)]"
proof -
  have cfg: "get_config rome_store = (default_configuration, rome_store)"
    by (simp add: get_config_def rome_store_value default_configuration_def)
  have up: "get_upcoming_events example_zones day0 rome_store ''Europe/Rome''
              = set (slots rome_store)"
    by (rule upcoming)
  have rows: "slots rome_store =
     [\<lparr>s_id = 1, title = ''Perseids'', description = ''Meteor watch'',
       start_time = day0 + 17 * 3600, end_time = day0 + 21 * 3600, available = True,
       weather_rating = None, max_bookings = 2, weather_warning = False,
       weather_forecast = False\<rparr>]"
    by (simp add: rome_store_value)
  have refresh: "slots (update_events_weather example_zones early_fetch day0 rome_store)
     = [\<lparr>s_id = 1, title = ''Perseids'', description = ''Meteor watch'',
       start_time = day0 + 17 * 3600, end_time = day0 + 21 * 3600, available = True,
       weather_rating = Some 100, max_bookings = 2, weather_warning = False,
       weather_forecast = True\<rparr>]"
    unfolding update_events_weather_def cfg prod.case Let_def default_zone up early_fetch_def
    by (simp add: rows refreshed_slot slot_constraints_def)
  have c3: "map (\<lambda>r. (s_id r, start_time r, end_time r, weather_rating r, weather_forecast r))
         (slots rome_store)
       = [(1, day0 + 17 * 3600, day0 + 21 * 3600, None, False)]"
    by (simp add: rows)
  have c4: "map_option timezone (config_row rome_store) = Some ''Europe/Rome''"
    by (simp add: rome_store_value)
  have c6: "s_id ` get_upcoming_events example_zones day0 rome_store ''Europe/Rome'' = {1}"
    by (simp add: up rows)
  have c8: "map (\<lambda>r. (s_id r, weather_rating r, weather_warning r, weather_forecast r))
         (slots (update_events_weather example_zones early_fetch day0 rome_store))
       = [(1, Some 100, False, True)]"
    by (simp add: refresh)
  show ?thesis
    using evening_times_rome c3 c4 creation_weather c6 refresh_range c8
    by (intro conjI)
qed

theorem refresh_rates_hour_before_event_witness:
  "get_event_weather example_zones early_fetch (Aware (start_local (evening_times rome)) rome)
      (Aware (end_local (evening_times rome)) rome) default_configuration
     = (None, False, False)
   \<and> map (\<lambda>r. (s_id r, weather_rating r, weather_warning r, weather_forecast r))
         (slots (update_events_weather example_zones early_fetch day0 rome_store))
       \<noteq> [(1, None, False, False)]"
proof -
  note a = refresh_rates_hour_before_event [THEN conjunct2, THEN conjunct2, THEN conjunct2,
      THEN conjunct2, THEN conjunct1]
  note b = refresh_rates_hour_before_event [THEN conjunct2, THEN conjunct2, THEN conjunct2,
      THEN conjunct2, THEN conjunct2, THEN conjunct2, THEN conjunct2]
  have "map (\<lambda>r. (s_id r, weather_rating r, weather_warning r, weather_forecast r))
         (slots (update_events_weather example_zones early_fetch day0 rome_store))
       \<noteq> [(1, None, False, False)]"
    unfolding b by simp
  with a show ?thesis
    by (rule conjI)
qed

end
